theory Spec2Isabelle
  imports Main "HOL-Library.Word"
begin

section \<open>The import dumper of hadesmem (examples/dump/imports.cpp)\<close>

text \<open>
  \<^verbatim>\<open>DumpImports\<close> walks the import directory of a PE file, prints every descriptor and
  its thunks to \<^verbatim>\<open>std::wcout\<close> and flags the file with \<^verbatim>\<open>WarnForCurrentFile\<close>.
  The embedding keeps the control flow of the function and returns what it writes as a
  list of events, in the order of the source.
\<close>

subsection \<open>Values read from the PE file\<close>

type_synonym DWORD = "32 word"
type_synonym WORD = "16 word"

datatype WarningType = kSuspicious | kUnsupported

datatype PeFileType = Image | Data

text \<open>
  \<^verbatim>\<open>hadesmem::ImportThunk\<close>: the class is declared in the pelib headers; the record holds
  what each accessor used by the dumper returns. \<^verbatim>\<open>ByOrdinal\<close>, \<^verbatim>\<open>GetFunction\<close>,
  \<^verbatim>\<open>GetOrdinalRaw\<close>, \<^verbatim>\<open>GetOrdinal\<close> and \<^verbatim>\<open>GetAddressOfData\<close> read the thunk value
  itself, which the list has already read. \<^verbatim>\<open>GetHint\<close> and \<^verbatim>\<open>GetName\<close> read the
  hint/name record behind the thunk and throw when it cannot be read: \<open>None\<close>. The field
  for \<^verbatim>\<open>thunk.GetName()\<close> is \<open>GetThunkName\<close>, since \<open>GetName\<close> is the accessor of the
  descriptor below.
\<close>

record ImportThunk =
  ByOrdinal :: bool
  GetFunction :: DWORD
  GetOrdinalRaw :: DWORD
  GetOrdinal :: WORD
  GetAddressOfData :: DWORD
  GetHint :: "WORD option"
  GetThunkName :: "string option"

text \<open>
  \<^verbatim>\<open>hadesmem::ImportDir\<close>, one import descriptor. \<^verbatim>\<open>GetName\<close> throws when the module
  name cannot be read: \<open>None\<close>.
\<close>

record ImportDir =
  IsTlsAoiTerminated :: bool
  GetOriginalFirstThunk :: DWORD
  GetTimeDateStamp :: DWORD
  GetForwarderChain :: DWORD
  GetNameRaw :: DWORD
  GetName :: "string option"
  GetFirstThunk :: DWORD

text \<open>
  The pair \<^verbatim>\<open>(process, pe_file)\<close> every function takes. The library behind it is not
  part of the dumper, so the record holds what the dumper asks of it:
  \<^item> \<open>GetType\<close>: \<^verbatim>\<open>pe_file.GetType()\<close>;
  \<^item> \<open>RvaToVa\<close>: the pointer \<^verbatim>\<open>hadesmem::RvaToVa\<close> returns, \<open>0\<close> for \<^verbatim>\<open>nullptr\<close>;
  \<^item> \<open>ImportDirList\<close>: the descriptors the range \<^verbatim>\<open>ImportDirList\<close> yields, in order;
  \<^item> \<open>thunk_table\<close>: the thunk records that can be read from a table RVA onwards;
  \<^item> \<open>BoundImportDirList\<close>: the entries the range \<^verbatim>\<open>BoundImportDirList\<close> yields (the
    dumper of the import directory only asks whether there is one).
\<close>

record 'b PeFile =
  GetType :: PeFileType
  RvaToVa :: "DWORD \<Rightarrow> nat"
  ImportDirList :: "ImportDir list"
  thunk_table :: "DWORD \<Rightarrow> ImportThunk list"
  BoundImportDirList :: "'b list"

text \<open>
  Modelled from the spec: the range \<^verbatim>\<open>hadesmem::ImportThunkList\<close> (import_thunk_list.hpp
  is not among the sources). The thunk reader yields no element when the table address is
  unmappable and stops at the first thunk whose raw value is zero; the comments of
  \<^verbatim>\<open>DumpImports\<close> agree (``empty includes invalid''). It has no ceiling of its own: the
  ceiling is the counter in the loops of \<^verbatim>\<open>DumpImports\<close>.
\<close>

definition ImportThunkList :: "'b PeFile \<Rightarrow> DWORD \<Rightarrow> ImportThunk list" where
  "ImportThunkList pe rva =
     (if RvaToVa pe rva = 0 then []
      else takeWhile (\<lambda>thunk. GetAddressOfData thunk \<noteq> 0) (thunk_table pe rva))"

subsection \<open>What the dumper writes\<close>

text \<open>The lines written to \<^verbatim>\<open>std::wcout\<close>, one constructor for each output statement.\<close>

datatype out_line =
    Newline
  | ImportDirsHeader
  | OriginalFirstThunkLine DWORD
  | TimeDateStampLine DWORD
  | ForwarderChainLine DWORD
  | NameRawLine DWORD
  | NameLine string
  | FirstThunkLine DWORD
  | ImportThunksHeader bool
  | IatThunksHeader
  | FunctionLine DWORD
  | OrdinalRawLine DWORD
  | OrdinalLine WORD
  | AddressOfDataLine DWORD
  | HintLine WORD
  | ThunkNameLine string

text \<open>
  The \<^verbatim>\<open>WARNING!\<close> lines. Each of them is followed at once by a call of
  \<^verbatim>\<open>WarnForCurrentFile\<close>, so the log keeps the line and the call as one event.
  \<open>IatEmptyOrInvalid\<close> and \<open>IltEmptyOrInvalid\<close> carry the flag that selects the word
  ``empty'' (\<open>True\<close>) or ``invalid'' (\<open>False\<close>).
\<close>

datatype warning =
    EmptyImportDir
  | TlsAoiTrick
  | IatEmptyOrInvalid bool
  | ImportDirCeiling
  | BoundInvalidIlt
  | OldStyleForwarderChain
  | NameReadFailed
  | IltEmptyOrInvalid bool
  | ImportThunkCeiling
  | IatIltSizeMismatch
  | InvalidThunkNameData

datatype event =
    wcout out_line
  | WarnForCurrentFile WarningType warning

subsection \<open>DumpImportThunk\<close>

text \<open>
  The \<^verbatim>\<open>try\<close> block writes three lines; \<^verbatim>\<open>GetHint\<close> or \<^verbatim>\<open>GetName\<close> may throw, and
  the handler then warns. A line is logged when its statement completes.
\<close>

definition DumpImportThunk :: "ImportThunk \<Rightarrow> bool \<Rightarrow> event list" where
  "DumpImportThunk thunk is_bound =
     wcout Newline #
     (let by_ordinal = ByOrdinal thunk in
      if is_bound then [wcout (FunctionLine (GetFunction thunk))]
      else if by_ordinal then
        [wcout (OrdinalRawLine (GetOrdinalRaw thunk)), wcout (OrdinalLine (GetOrdinal thunk))]
      else
        wcout (AddressOfDataLine (GetAddressOfData thunk)) #
        (case GetHint thunk of
           None \<Rightarrow> [WarnForCurrentFile kUnsupported InvalidThunkNameData]
         | Some hint \<Rightarrow>
             wcout (HintLine hint) #
             (case GetThunkName thunk of
                None \<Rightarrow> [WarnForCurrentFile kUnsupported InvalidThunkNameData]
              | Some name \<Rightarrow> [wcout (ThunkNameLine name)])))"

subsection \<open>DumpImports\<close>

definition HasValidNonEmptyBoundImportDescList :: "'b PeFile \<Rightarrow> bool" where
  "HasValidNonEmptyBoundImportDescList pe = (BoundImportDirList pe \<noteq> [])"

text \<open>The locals of the loop body, as functions of the descriptor.\<close>

definition iat_valid :: "'b PeFile \<Rightarrow> ImportDir \<Rightarrow> bool" where
  "iat_valid pe dir = (RvaToVa pe (GetFirstThunk dir) \<noteq> 0)"

definition use_ilt :: "ImportDir \<Rightarrow> bool" where
  "use_ilt dir =
     (GetOriginalFirstThunk dir \<noteq> 0 \<and> GetOriginalFirstThunk dir \<noteq> GetFirstThunk dir)"

definition ilt_thunks :: "'b PeFile \<Rightarrow> ImportDir \<Rightarrow> ImportThunk list" where
  "ilt_thunks pe dir =
     ImportThunkList pe (if use_ilt dir then GetOriginalFirstThunk dir else GetFirstThunk dir)"

definition ilt_empty :: "'b PeFile \<Rightarrow> ImportDir \<Rightarrow> bool" where
  "ilt_empty pe dir = (ilt_thunks pe dir = [])"

definition ilt_valid :: "'b PeFile \<Rightarrow> ImportDir \<Rightarrow> bool" where
  "ilt_valid pe dir = (RvaToVa pe (GetOriginalFirstThunk dir) \<noteq> 0)"

definition iat_thunks :: "'b PeFile \<Rightarrow> ImportDir \<Rightarrow> ImportThunk list" where
  "iat_thunks pe dir = ImportThunkList pe (GetFirstThunk dir)"

definition is_bound :: "ImportDir \<Rightarrow> bool" where
  "is_bound dir = (GetTimeDateStamp dir \<noteq> 0)"

definition is_memory_bound :: "'b PeFile \<Rightarrow> ImportDir \<Rightarrow> bool" where
  "is_memory_bound pe dir = (GetType pe = Image \<and> \<not> use_ilt dir)"

definition is_ilt_bound :: "'b PeFile \<Rightarrow> ImportDir \<Rightarrow> bool" where
  "is_ilt_bound pe dir = ((is_bound dir \<and> \<not> use_ilt dir) \<or> is_memory_bound pe dir)"

definition is_iat_bound :: "'b PeFile \<Rightarrow> ImportDir \<Rightarrow> bool" where
  "is_iat_bound pe dir = (is_bound dir \<or> GetType pe = Image)"

text \<open>
  Lines 163 to 216: the fields of the descriptor, with the checks of the time stamp, the
  forwarder chain and the name.
\<close>

definition DumpImports_fields :: "'b PeFile \<Rightarrow> ImportDir \<Rightarrow> event list" where
  "DumpImports_fields pe dir =
     (let time_date_stamp = GetTimeDateStamp dir;
          forwarder_chain = GetForwarderChain dir
      in
        [wcout (OriginalFirstThunkLine (GetOriginalFirstThunk dir)),
         wcout (TimeDateStampLine time_date_stamp)] @
        (if time_date_stamp = - 1 \<and> \<not> ilt_valid pe dir \<and> HasValidNonEmptyBoundImportDescList pe
         then [WarnForCurrentFile kUnsupported BoundInvalidIlt] else []) @
        [wcout (ForwarderChainLine forwarder_chain)] @
        (if forwarder_chain \<noteq> 0 \<and> forwarder_chain \<noteq> - 1
         then [WarnForCurrentFile kUnsupported OldStyleForwarderChain] else []) @
        [wcout (NameRawLine (GetNameRaw dir))] @
        (case GetName dir of
           Some name \<Rightarrow> [wcout (NameLine name)]
         | None \<Rightarrow> [WarnForCurrentFile kSuspicious NameReadFailed]) @
        [wcout (FirstThunkLine (GetFirstThunk dir))])"

text \<open>
  Lines 253 to 275: the loop over \<^verbatim>\<open>ilt_thunks\<close>. It returns the events and the final
  value of \<^verbatim>\<open>count\<close>; \<^verbatim>\<open>count++\<close> also runs in the iteration that breaks. The flag
  \<^verbatim>\<open>is_ilt_bound\<close> is passed in (as \<open>ilt_bound\<close>) and discarded, as
  \<^verbatim>\<open>(void)is_ilt_bound\<close> does.
  \<^verbatim>\<open>count\<close> is a \<^verbatim>\<open>std::size_t\<close> that starts at 0 and is incremented at most 1001
  times, so it is a natural number here.
\<close>

fun DumpImports_ilt_loop :: "bool \<Rightarrow> nat \<Rightarrow> ImportThunk list \<Rightarrow> event list \<times> nat" where
  "DumpImports_ilt_loop ilt_bound count [] = ([], count)"
| "DumpImports_ilt_loop ilt_bound count (thunk # thunks) =
     (if count = 1000 then ([WarnForCurrentFile kUnsupported ImportThunkCeiling], count + 1)
      else (case DumpImports_ilt_loop ilt_bound (count + 1) thunks of
              (events, count') \<Rightarrow> (DumpImportThunk thunk False @ events, count')))"

text \<open>
  Lines 288 to 311: the loop over the IAT. \<^verbatim>\<open>ilt_valid && !count--\<close> evaluates
  \<^verbatim>\<open>count--\<close> only when \<^verbatim>\<open>ilt_valid\<close> holds, and the loop breaks when it finds 0.
\<close>

fun DumpImports_iat_loop :: "bool \<Rightarrow> bool \<Rightarrow> nat \<Rightarrow> ImportThunk list \<Rightarrow> event list" where
  "DumpImports_iat_loop ilt_ok bound count [] = []"
| "DumpImports_iat_loop ilt_ok bound count (thunk # thunks) =
     (if ilt_ok \<and> count = 0 then [WarnForCurrentFile kSuspicious IatIltSizeMismatch]
      else DumpImportThunk thunk bound @
           DumpImports_iat_loop ilt_ok bound (if ilt_ok then count - 1 else count) thunks)"

text \<open>Lines 222 to 275: the ILT header or warning, then the loop.\<close>

definition DumpImports_ilt :: "'b PeFile \<Rightarrow> ImportDir \<Rightarrow> event list \<times> nat" where
  "DumpImports_ilt pe dir =
     (case DumpImports_ilt_loop (is_ilt_bound pe dir) 0 (ilt_thunks pe dir) of
        (events, count) \<Rightarrow>
          ((if ilt_empty pe dir
            then WarnForCurrentFile kSuspicious (IltEmptyOrInvalid (ilt_valid pe dir))
            else wcout (ImportThunksHeader (use_ilt dir))) # events, count))"

text \<open>Lines 280 to 312: the separate pass over the IAT.\<close>

definition DumpImports_iat :: "'b PeFile \<Rightarrow> ImportDir \<Rightarrow> nat \<Rightarrow> event list" where
  "DumpImports_iat pe dir count =
     (if use_ilt dir \<and> GetFirstThunk dir \<noteq> 0 then
        (if iat_thunks pe dir \<noteq> [] then [wcout IatThunksHeader] else []) @
        DumpImports_iat_loop (ilt_valid pe dir)
          ((is_iat_bound pe dir \<and> ilt_valid pe dir) \<or> \<not> ilt_empty pe dir)
          count (iat_thunks pe dir)
      else [])"

text \<open>
  The body of the loop over the descriptors: the events of one iteration, the new value of
  \<^verbatim>\<open>num_import_dirs\<close> (a \<^verbatim>\<open>std::uint32_t\<close>) and how the iteration ends.
\<close>

datatype ctl = Continue | Break

definition DumpImports_dir :: "'b PeFile \<Rightarrow> DWORD \<Rightarrow> ImportDir \<Rightarrow> event list \<times> DWORD \<times> ctl" where
  "DumpImports_dir pe num_import_dirs dir =
     (if IsTlsAoiTerminated dir then
        ([wcout Newline, WarnForCurrentFile kSuspicious TlsAoiTrick], num_import_dirs, Break)
      else if iat_thunks pe dir = [] then
        ([wcout Newline, WarnForCurrentFile kSuspicious (IatEmptyOrInvalid (iat_valid pe dir))],
         num_import_dirs, Continue)
      else if num_import_dirs = 1000 then
        ([wcout Newline, WarnForCurrentFile kUnsupported ImportDirCeiling],
         num_import_dirs + 1, Break)
      else
        (case DumpImports_ilt pe dir of
           (ilt_events, count) \<Rightarrow>
             (wcout Newline # DumpImports_fields pe dir @ ilt_events @
              DumpImports_iat pe dir count,
              num_import_dirs + 1, Continue)))"

fun DumpImports_loop ::
  "'b PeFile \<Rightarrow> DWORD \<Rightarrow> ImportDir list \<Rightarrow> event list \<times> DWORD \<times> ctl" where
  "DumpImports_loop pe num_import_dirs [] = ([], num_import_dirs, Continue)"
| "DumpImports_loop pe num_import_dirs (dir # dirs) =
     (case DumpImports_dir pe num_import_dirs dir of
        (events, num_import_dirs', Break) \<Rightarrow> (events, num_import_dirs', Break)
      | (events, num_import_dirs', Continue) \<Rightarrow>
          (case DumpImports_loop pe num_import_dirs' dirs of
             (events', result) \<Rightarrow> (events @ events', result)))"

definition DumpImports :: "'b PeFile \<Rightarrow> event list" where
  "DumpImports pe =
     (if ImportDirList pe \<noteq> [] then wcout ImportDirsHeader
      else WarnForCurrentFile kSuspicious EmptyImportDir) #
     fst (DumpImports_loop pe 0 (ImportDirList pe))"

subsection \<open>Reading a log\<close>

text \<open>
  Every call of \<^verbatim>\<open>DumpImportThunk\<close> writes exactly one of the lines \<^verbatim>\<open>Function\<close>,
  \<^verbatim>\<open>OrdinalRaw\<close> and \<^verbatim>\<open>AddressOfData\<close>, and no other statement writes them: the
  number of these lines in a log is the number of thunks that were enumerated.
\<close>

fun is_thunk_line :: "event \<Rightarrow> bool" where
  "is_thunk_line (wcout (FunctionLine a)) = True"
| "is_thunk_line (wcout (OrdinalRawLine a)) = True"
| "is_thunk_line (wcout (AddressOfDataLine a)) = True"
| "is_thunk_line e = False"

definition thunks_dumped :: "event list \<Rightarrow> nat" where
  "thunks_dumped log = length (filter is_thunk_line log)"

text \<open>What \<^verbatim>\<open>DumpImportThunk\<close> writes for a list of thunks, one after the other.\<close>

definition dump_all :: "bool \<Rightarrow> ImportThunk list \<Rightarrow> event list" where
  "dump_all bound thunks = concat (map (\<lambda>thunk. DumpImportThunk thunk bound) thunks)"

subsection \<open>Sample images\<close>

text \<open>
  A thunk that imports \<open>f\<close> by name, a thunk whose hint/name record cannot be read, and
  the zero thunk that ends a table.
\<close>

definition named_thunk :: ImportThunk where
  "named_thunk =
     \<lparr>ByOrdinal = False, GetFunction = 0x3000, GetOrdinalRaw = 0x3000, GetOrdinal = 0x3000,
      GetAddressOfData = 0x3000, GetHint = Some 1, GetThunkName = Some ''f''\<rparr>"

definition unreadable_thunk :: ImportThunk where
  "unreadable_thunk =
     \<lparr>ByOrdinal = False, GetFunction = 0x7000, GetOrdinalRaw = 0x7000, GetOrdinal = 0x7000,
      GetAddressOfData = 0x7000, GetHint = None, GetThunkName = None\<rparr>"

definition zero_thunk :: ImportThunk where
  "zero_thunk =
     \<lparr>ByOrdinal = False, GetFunction = 0, GetOrdinalRaw = 0, GetOrdinal = 0,
      GetAddressOfData = 0, GetHint = None, GetThunkName = None\<rparr>"

text \<open>
  A file on disk in which the RVAs \<open>0x2000\<close> and \<open>0x2800\<close> resolve and no other does:
  a table of one thunk at \<open>0x2000\<close>, a table of two at \<open>0x2800\<close>, no bound import
  directory. Its one descriptor has no ILT and its IAT at \<open>0x2000\<close>.
\<close>

definition sample_dir :: ImportDir where
  "sample_dir =
     \<lparr>IsTlsAoiTerminated = False, GetOriginalFirstThunk = 0, GetTimeDateStamp = 0,
      GetForwarderChain = 0, GetNameRaw = 0x1000, GetName = Some ''k.dll'',
      GetFirstThunk = 0x2000\<rparr>"

definition sample_pe :: "unit PeFile" where
  "sample_pe =
     \<lparr>GetType = Data,
      RvaToVa = (\<lambda>rva. if rva = 0x2000 \<or> rva = 0x2800 then 0x400000 + unat rva else 0),
      ImportDirList = [sample_dir],
      thunk_table = (\<lambda>rva. if rva = 0x2000 then [named_thunk, zero_thunk]
                           else if rva = 0x2800 then [named_thunk, unreadable_thunk, zero_thunk]
                           else []),
      BoundImportDirList = []\<rparr>"

text \<open>
  Tables for the ceiling of the thunk loop: 1000 thunks and then the zero thunk; 1001
  thunks with no zero thunk among them.
\<close>

definition long_table_pe :: "unit PeFile" where
  "long_table_pe =
     sample_pe\<lparr>thunk_table := (\<lambda>rva. replicate 1000 named_thunk @ [zero_thunk])\<rparr>"

definition endless_table_pe :: "unit PeFile" where
  "endless_table_pe = sample_pe\<lparr>thunk_table := (\<lambda>rva. replicate 1001 named_thunk)\<rparr>"

text \<open>
  Descriptors for the sample image: one whose IAT RVA does not resolve (and whose name
  cannot be read), one whose ILT RVA equals its IAT RVA, one whose name cannot be read.
\<close>

definition empty_iat_dir :: ImportDir where
  "empty_iat_dir = sample_dir\<lparr>GetName := None, GetFirstThunk := 0x9000\<rparr>"

definition same_table_dir :: ImportDir where
  "same_table_dir = sample_dir\<lparr>GetOriginalFirstThunk := 0x2000\<rparr>"

definition unnamed_dir :: ImportDir where
  "unnamed_dir = sample_dir\<lparr>GetName := None\<rparr>"

text \<open>
  A descriptor bound in the new style (time stamp \<open>0xFFFFFFFF\<close>) with no ILT, as the file
  \<^verbatim>\<open>dllmaxvals.dll\<close> the source mentions; the sample image with a bound import directory
  of one entry; a descriptor bound in the old style.
\<close>

definition new_style_bound_dir :: ImportDir where
  "new_style_bound_dir = sample_dir\<lparr>GetTimeDateStamp := 0xFFFFFFFF\<rparr>"

definition bound_import_pe :: "unit PeFile" where
  "bound_import_pe = sample_pe\<lparr>BoundImportDirList := [()]\<rparr>"

definition old_style_bound_dir :: ImportDir where
  "old_style_bound_dir = sample_dir\<lparr>GetTimeDateStamp := 0x50000000\<rparr>"

text \<open>
  A descriptor whose ILT RVA does not resolve; a descriptor with an ILT of one thunk and
  an IAT of two; an image whose only descriptor has an unmappable ILT and an IAT of 2000
  thunks.
\<close>

definition unmapped_ilt_dir :: ImportDir where
  "unmapped_ilt_dir = sample_dir\<lparr>GetOriginalFirstThunk := 0x9000\<rparr>"

definition two_table_dir :: ImportDir where
  "two_table_dir = sample_dir\<lparr>GetOriginalFirstThunk := 0x2000, GetFirstThunk := 0x2800\<rparr>"

definition huge_iat_pe :: "unit PeFile" where
  "huge_iat_pe =
     sample_pe\<lparr>ImportDirList := [unmapped_ilt_dir],
               thunk_table := (\<lambda>rva. replicate 2000 named_thunk)\<rparr>"

text \<open>What the loop writes for a run of skipped descriptors: one warning each.\<close>

definition skip_log :: "'b PeFile \<Rightarrow> ImportDir list \<Rightarrow> event list" where
  "skip_log pe dirs =
     concat (map (\<lambda>dir. [wcout Newline,
                          WarnForCurrentFile kSuspicious (IatEmptyOrInvalid (iat_valid pe dir))])
                 dirs)"

text \<open>
  An image with 5000 descriptors that are all skipped; an image whose second descriptor is
  the TLS AOI terminator.
\<close>

definition many_skipped_pe :: "unit PeFile" where
  "many_skipped_pe = sample_pe\<lparr>ImportDirList := replicate 5000 empty_iat_dir\<rparr>"

definition tls_dir :: ImportDir where
  "tls_dir = sample_dir\<lparr>IsTlsAoiTerminated := True\<rparr>"

definition tls_pe :: "unit PeFile" where
  "tls_pe = sample_pe\<lparr>ImportDirList := [sample_dir, tls_dir, sample_dir]\<rparr>"

section \<open>Properties\<close>

subsection \<open>Shared lemmas\<close>

lemma thunks_dumped_Nil [simp]: "thunks_dumped [] = 0"
  by (simp add: thunks_dumped_def)

lemma thunks_dumped_Cons [simp]:
  "thunks_dumped (e # log) = (if is_thunk_line e then 1 else 0) + thunks_dumped log"
  by (simp add: thunks_dumped_def)

lemma thunks_dumped_append [simp]:
  "thunks_dumped (xs @ ys) = thunks_dumped xs + thunks_dumped ys"
  by (simp add: thunks_dumped_def)

lemma thunks_dumped_DumpImportThunk [simp]: "thunks_dumped (DumpImportThunk t b) = 1"
  by (simp add: DumpImportThunk_def Let_def split: option.splits)

lemma dump_all_simps [simp]:
  "dump_all b [] = []"
  "dump_all b (t # ts) = DumpImportThunk t b @ dump_all b ts"
  by (simp_all add: dump_all_def)

lemma dump_all_append [simp]: "dump_all b (xs @ ys) = dump_all b xs @ dump_all b ys"
  by (simp add: dump_all_def)

lemma thunks_dumped_dump_all [simp]: "thunks_dumped (dump_all b ts) = length ts"
  by (induction ts) simp_all

lemma warnings_DumpImportThunk:
  "WarnForCurrentFile ty w \<in> set (DumpImportThunk t b) \<Longrightarrow>
   ty = kUnsupported \<and> w = InvalidThunkNameData"
  by (auto simp: DumpImportThunk_def Let_def split: if_splits option.splits)

lemma warnings_dump_all:
  "WarnForCurrentFile ty w \<in> set (dump_all b ts) \<Longrightarrow>
   ty = kUnsupported \<and> w = InvalidThunkNameData"
  by (auto simp: dump_all_def dest: warnings_DumpImportThunk)

lemma count_DumpImportThunk [simp]:
  "w \<noteq> InvalidThunkNameData \<Longrightarrow>
   count_list (DumpImportThunk t b) (WarnForCurrentFile ty w) = 0"
  by (auto simp: count_list_0_iff dest: warnings_DumpImportThunk)

lemma count_dump_all [simp]:
  "w \<noteq> InvalidThunkNameData \<Longrightarrow> count_list (dump_all b ts) (WarnForCurrentFile ty w) = 0"
  by (auto simp: count_list_0_iff dest: warnings_dump_all)

text \<open>The loop over \<^verbatim>\<open>ilt_thunks\<close> in closed form.\<close>

lemma ilt_loop_eq:
  "count \<le> 1000 \<Longrightarrow>
   DumpImports_ilt_loop b count ts =
     (dump_all False (take (1000 - count) ts) @
        (if 1000 - count < length ts then [WarnForCurrentFile kUnsupported ImportThunkCeiling]
         else []),
      if length ts \<le> 1000 - count then count + length ts else 1001)"
proof (induction ts arbitrary: count)
  case Nil
  then show ?case by simp
next
  case (Cons t ts)
  show ?case
  proof (cases "count = 1000")
    case True
    then show ?thesis by simp
  next
    case False
    with Cons.prems have lt: "count < 1000" by simp
    then have le: "count + 1 \<le> 1000" by simp
    have eq: "1000 - count = Suc (1000 - (count + 1))" using lt by simp
    from Cons.IH [OF le] lt show ?thesis
      unfolding eq by auto
  qed
qed

text \<open>The loop over the IAT in closed form, without and with the check of the size.\<close>

lemma iat_loop_unchecked: "DumpImports_iat_loop False b count ts = dump_all b ts"
  by (induction ts) simp_all

lemma iat_loop_checked:
  "DumpImports_iat_loop True b count ts =
     dump_all b (take count ts) @
     (if count < length ts then [WarnForCurrentFile kSuspicious IatIltSizeMismatch] else [])"
proof (induction ts arbitrary: count)
  case Nil
  then show ?case by simp
next
  case (Cons t ts)
  then show ?case by (cases count) simp_all
qed

lemma DumpImports_ilt_eq:
  "DumpImports_ilt pe dir =
     ((if ilt_empty pe dir
       then WarnForCurrentFile kSuspicious (IltEmptyOrInvalid (ilt_valid pe dir))
       else wcout (ImportThunksHeader (use_ilt dir))) #
      dump_all False (take 1000 (ilt_thunks pe dir)) @
      (if 1000 < length (ilt_thunks pe dir)
       then [WarnForCurrentFile kUnsupported ImportThunkCeiling] else []),
      if length (ilt_thunks pe dir) \<le> 1000 then length (ilt_thunks pe dir) else 1001)"
  by (simp add: DumpImports_ilt_def ilt_loop_eq)

text \<open>A descriptor that is neither a terminator nor skipped nor beyond the ceiling.\<close>

lemma DumpImports_dir_processed:
  "\<not> IsTlsAoiTerminated dir \<Longrightarrow> iat_thunks pe dir \<noteq> [] \<Longrightarrow> n \<noteq> 1000 \<Longrightarrow>
   DumpImports_dir pe n dir =
     (wcout Newline # DumpImports_fields pe dir @ fst (DumpImports_ilt pe dir) @
      DumpImports_iat pe dir (snd (DumpImports_ilt pe dir)), n + 1, Continue)"
  by (simp add: DumpImports_dir_def split: prod.splits)

text \<open>An unmappable table has no thunks.\<close>

lemma ImportThunkList_unmappable: "RvaToVa pe rva = 0 \<Longrightarrow> ImportThunkList pe rva = []"
  by (simp add: ImportThunkList_def)

text \<open>The warnings each part of the loop body can record.\<close>

lemma warnings_fields:
  "WarnForCurrentFile ty w \<in> set (DumpImports_fields pe dir) \<Longrightarrow>
   w = BoundInvalidIlt \<or> w = OldStyleForwarderChain \<or> w = NameReadFailed"
  by (auto simp: DumpImports_fields_def Let_def split: if_splits option.splits)

lemma warnings_ilt:
  "WarnForCurrentFile ty w \<in> set (fst (DumpImports_ilt pe dir)) \<Longrightarrow>
   w = IltEmptyOrInvalid (ilt_valid pe dir) \<or> w = ImportThunkCeiling \<or>
   w = InvalidThunkNameData"
  by (auto simp: DumpImports_ilt_eq split: if_splits dest: warnings_dump_all)

lemma warnings_iat:
  "WarnForCurrentFile ty w \<in> set (DumpImports_iat pe dir count) \<Longrightarrow>
   w = IatIltSizeMismatch \<or> w = InvalidThunkNameData"
  by (cases "ilt_valid pe dir")
     (auto simp: DumpImports_iat_def iat_loop_checked iat_loop_unchecked
           split: if_splits dest: warnings_dump_all)

subsection \<open>The ceiling of the thunk loop\<close>

lemma named_thunk_nonzero: "GetAddressOfData named_thunk \<noteq> 0"
  by (simp add: named_thunk_def)

lemma ImportThunkList_long_table: "ImportThunkList long_table_pe 0x2000 = replicate 1000 named_thunk"
proof -
  have "takeWhile (\<lambda>thunk. GetAddressOfData thunk \<noteq> 0) (replicate 1000 named_thunk @ [zero_thunk])
        = replicate 1000 named_thunk @ takeWhile (\<lambda>thunk. GetAddressOfData thunk \<noteq> 0) [zero_thunk]"
    by (rule takeWhile_append2) (simp add: named_thunk_nonzero)
  then show ?thesis
    by (simp add: ImportThunkList_def long_table_pe_def sample_pe_def zero_thunk_def)
qed

text \<open>
  C4 (as amended). The loop over the thunks of a table (\<^verbatim>\<open>count\<close> starting at 0), for a
  table whose RVA resolves. When the table has \<open>N \<le> 1000\<close> thunks before its zero thunk,
  the loop dumps exactly these \<open>N\<close> thunks and records no resource warning. When the first
  1001 thunks of the table are all non-zero, the loop dumps exactly the first 1000 and
  records exactly one \<open>kUnsupported\<close> resource warning. A table of exactly 1000 thunks
  followed by the zero thunk has no zero thunk among its first 1000 entries and still
  records no warning: the counterexample below.
\<close>

theorem thunk_walk_ceiling:
  fixes pe :: "'b PeFile"
  assumes "RvaToVa pe rva \<noteq> 0"
    and "\<forall>thunk \<in> set xs. GetAddressOfData thunk \<noteq> 0"
  shows
    "(thunk_table pe rva = xs @ z # rest \<and> GetAddressOfData z = 0 \<and> length xs \<le> 1000 \<longrightarrow>
        fst (DumpImports_ilt_loop b 0 (ImportThunkList pe rva)) = dump_all False xs \<and>
        thunks_dumped (fst (DumpImports_ilt_loop b 0 (ImportThunkList pe rva))) = length xs \<and>
        count_list (fst (DumpImports_ilt_loop b 0 (ImportThunkList pe rva)))
          (WarnForCurrentFile kUnsupported ImportThunkCeiling) = 0) \<and>
     (thunk_table pe rva = xs @ rest \<and> length xs = 1001 \<longrightarrow>
        fst (DumpImports_ilt_loop b 0 (ImportThunkList pe rva)) =
          dump_all False (take 1000 xs) @ [WarnForCurrentFile kUnsupported ImportThunkCeiling] \<and>
        thunks_dumped (fst (DumpImports_ilt_loop b 0 (ImportThunkList pe rva))) = 1000 \<and>
        count_list (fst (DumpImports_ilt_loop b 0 (ImportThunkList pe rva)))
          (WarnForCurrentFile kUnsupported ImportThunkCeiling) = 1)"
proof (intro conjI impI)
  assume a: "thunk_table pe rva = xs @ z # rest \<and> GetAddressOfData z = 0 \<and> length xs \<le> 1000"
  with assms have l: "ImportThunkList pe rva = xs"
    by (simp add: ImportThunkList_def takeWhile_append2)
  from a show "fst (DumpImports_ilt_loop b 0 (ImportThunkList pe rva)) = dump_all False xs"
    by (simp add: l ilt_loop_eq)
  from a show "thunks_dumped (fst (DumpImports_ilt_loop b 0 (ImportThunkList pe rva))) = length xs"
    by (simp add: l ilt_loop_eq)
  from a show "count_list (fst (DumpImports_ilt_loop b 0 (ImportThunkList pe rva)))
          (WarnForCurrentFile kUnsupported ImportThunkCeiling) = 0"
    by (simp add: l ilt_loop_eq)
next
  assume a: "thunk_table pe rva = xs @ rest \<and> length xs = 1001"
  with assms have l: "ImportThunkList pe rva = xs @ takeWhile (\<lambda>thunk. GetAddressOfData thunk \<noteq> 0) rest"
    by (simp add: ImportThunkList_def takeWhile_append2)
  from a show "fst (DumpImports_ilt_loop b 0 (ImportThunkList pe rva)) =
          dump_all False (take 1000 xs) @ [WarnForCurrentFile kUnsupported ImportThunkCeiling]"
    by (simp add: l ilt_loop_eq)
  from a show "thunks_dumped (fst (DumpImports_ilt_loop b 0 (ImportThunkList pe rva))) = 1000"
    by (simp add: l ilt_loop_eq)
  from a show "count_list (fst (DumpImports_ilt_loop b 0 (ImportThunkList pe rva)))
          (WarnForCurrentFile kUnsupported ImportThunkCeiling) = 1"
    by (simp add: l ilt_loop_eq)
qed

theorem thunk_walk_ceiling_counterexample:
  "0 \<notin> GetAddressOfData ` set (take 1000 (thunk_table long_table_pe 0x2000)) \<and>
   length (take 1000 (thunk_table long_table_pe 0x2000)) = 1000 \<and>
   RvaToVa long_table_pe 0x2000 \<noteq> 0 \<and>
   thunks_dumped (fst (DumpImports_ilt_loop False 0 (ImportThunkList long_table_pe 0x2000))) = 1000 \<and>
   count_list (fst (DumpImports_ilt_loop False 0 (ImportThunkList long_table_pe 0x2000)))
     (WarnForCurrentFile kUnsupported ImportThunkCeiling) = 0"
proof -
  have t: "take 1000 (thunk_table long_table_pe 0x2000) = replicate 1000 named_thunk"
    by (simp add: long_table_pe_def)
  have r: "RvaToVa long_table_pe 0x2000 \<noteq> 0"
    by (simp add: long_table_pe_def sample_pe_def)
  show ?thesis
    by (simp add: t r ImportThunkList_long_table ilt_loop_eq named_thunk_nonzero)
qed

theorem thunk_walk_ceiling_witness:
  "thunks_dumped (fst (DumpImports_ilt_loop False 0 (ImportThunkList sample_pe 0x2000))) = 1 \<and>
   count_list (fst (DumpImports_ilt_loop False 0 (ImportThunkList sample_pe 0x2000)))
     (WarnForCurrentFile kUnsupported ImportThunkCeiling) = 0 \<and>
   thunks_dumped (fst (DumpImports_ilt_loop False 0 (ImportThunkList endless_table_pe 0x2000))) = 1000 \<and>
   count_list (fst (DumpImports_ilt_loop False 0 (ImportThunkList endless_table_pe 0x2000)))
     (WarnForCurrentFile kUnsupported ImportThunkCeiling) = 1"
proof -
  have r1: "RvaToVa sample_pe 0x2000 \<noteq> 0" by (simp add: sample_pe_def)
  have n1: "\<forall>thunk \<in> set [named_thunk]. GetAddressOfData thunk \<noteq> 0"
    by (simp add: named_thunk_nonzero)
  have t1: "thunk_table sample_pe 0x2000 = [named_thunk] @ zero_thunk # [] \<and>
            GetAddressOfData zero_thunk = 0 \<and> length [named_thunk] \<le> 1000"
    by (simp add: sample_pe_def zero_thunk_def)
  have r2: "RvaToVa endless_table_pe 0x2000 \<noteq> 0"
    by (simp add: endless_table_pe_def sample_pe_def)
  have n2: "\<forall>thunk \<in> set (replicate 1001 named_thunk). GetAddressOfData thunk \<noteq> 0"
    by (simp add: named_thunk_nonzero)
  have t2: "thunk_table endless_table_pe 0x2000 = replicate 1001 named_thunk @ [] \<and>
            length (replicate 1001 named_thunk) = 1001"
    by (simp add: endless_table_pe_def)
  from thunk_walk_ceiling [OF r1 n1, of zero_thunk "[]" False] t1
       thunk_walk_ceiling [OF r2 n2, of zero_thunk "[]" False] t2
  show ?thesis by simp
qed

subsection \<open>Facts about the sample image and about counting warnings\<close>

lemma sample_dir_simps [simp]:
  "IsTlsAoiTerminated sample_dir = False"
  "GetOriginalFirstThunk sample_dir = 0"
  "GetTimeDateStamp sample_dir = 0"
  "GetForwarderChain sample_dir = 0"
  "GetNameRaw sample_dir = 0x1000"
  "GetName sample_dir = Some ''k.dll''"
  "GetFirstThunk sample_dir = 0x2000"
  by (simp_all add: sample_dir_def)

lemma sample_pe_simps [simp]:
  "GetType sample_pe = Data"
  "RvaToVa sample_pe rva = (if rva = 0x2000 \<or> rva = 0x2800 then 0x400000 + unat rva else 0)"
  "ImportDirList sample_pe = [sample_dir]"
  "BoundImportDirList sample_pe = []"
  by (simp_all add: sample_pe_def)

lemma sample_pe_tables [simp]:
  "ImportThunkList sample_pe 0x2000 = [named_thunk]"
  "ImportThunkList sample_pe 0x2800 = [named_thunk, unreadable_thunk]"
  "rva \<noteq> 0x2000 \<Longrightarrow> rva \<noteq> 0x2800 \<Longrightarrow> ImportThunkList sample_pe rva = []"
  by (simp_all add: ImportThunkList_def sample_pe_def named_thunk_def unreadable_thunk_def
        zero_thunk_def)

lemma count_name_warning_fields:
  "count_list (DumpImports_fields pe dir) (WarnForCurrentFile kSuspicious NameReadFailed) =
     (if GetName dir = None then 1 else 0)"
  by (simp add: DumpImports_fields_def Let_def split: option.splits)

lemma count_ilt_other [simp]:
  "w \<noteq> IltEmptyOrInvalid (ilt_valid pe dir) \<Longrightarrow> w \<noteq> ImportThunkCeiling \<Longrightarrow>
   w \<noteq> InvalidThunkNameData \<Longrightarrow>
   count_list (fst (DumpImports_ilt pe dir)) (WarnForCurrentFile ty w) = 0"
  by (auto simp: count_list_0_iff dest: warnings_ilt)

lemma count_iat_other [simp]:
  "w \<noteq> IatIltSizeMismatch \<Longrightarrow> w \<noteq> InvalidThunkNameData \<Longrightarrow>
   count_list (DumpImports_iat pe dir count) (WarnForCurrentFile ty w) = 0"
  by (auto simp: count_list_0_iff dest: warnings_iat)

lemma count_fields_other [simp]:
  "w \<noteq> BoundInvalidIlt \<Longrightarrow> w \<noteq> OldStyleForwarderChain \<Longrightarrow> w \<noteq> NameReadFailed \<Longrightarrow>
   count_list (DumpImports_fields pe dir) (WarnForCurrentFile ty w) = 0"
  by (auto simp: count_list_0_iff dest: warnings_fields)

subsection \<open>Skipped descriptors\<close>

text \<open>
  C5. A descriptor that is not the TLS AOI terminator and whose IAT yields no thunk is
  skipped: the iteration records exactly one \<open>kSuspicious\<close> warning (IAT empty or
  invalid) and nothing else, leaves \<^verbatim>\<open>num_import_dirs\<close> as it was and continues with the
  next descriptor. The name is never read: the result is the same whatever \<^verbatim>\<open>GetName\<close>
  would return, so no warning about the name can be recorded.
\<close>

theorem empty_iat_skipped:
  assumes "\<not> IsTlsAoiTerminated dir"
    and "iat_thunks pe dir = []"
  shows
    "DumpImports_dir pe n dir =
       ([wcout Newline, WarnForCurrentFile kSuspicious (IatEmptyOrInvalid (iat_valid pe dir))],
        n, Continue) \<and>
     DumpImports_dir pe n (dir\<lparr>GetName := name\<rparr>) = DumpImports_dir pe n dir \<and>
     DumpImports_loop pe n (dir # dirs) =
       ([wcout Newline, WarnForCurrentFile kSuspicious (IatEmptyOrInvalid (iat_valid pe dir))] @
        fst (DumpImports_loop pe n dirs), snd (DumpImports_loop pe n dirs))"
  using assms
  by (simp add: DumpImports_dir_def iat_thunks_def iat_valid_def split: prod.splits)

theorem empty_iat_skipped_witness:
  "DumpImports_dir sample_pe 0 empty_iat_dir =
     ([wcout Newline, WarnForCurrentFile kSuspicious (IatEmptyOrInvalid False)], 0, Continue) \<and>
   fst (DumpImports_loop sample_pe 0 [empty_iat_dir, sample_dir]) =
     [wcout Newline, WarnForCurrentFile kSuspicious (IatEmptyOrInvalid False)] @
     fst (DumpImports_loop sample_pe 0 [sample_dir])"
proof -
  have a: "\<not> IsTlsAoiTerminated empty_iat_dir" by (simp add: empty_iat_dir_def)
  have b: "iat_thunks sample_pe empty_iat_dir = []"
    by (simp add: empty_iat_dir_def iat_thunks_def)
  have c: "iat_valid sample_pe empty_iat_dir = False"
    by (simp add: empty_iat_dir_def iat_valid_def)
  from empty_iat_skipped [OF a b, of 0 None "[sample_dir]"] c show ?thesis
    by (simp del: DumpImports_loop.simps)
qed

subsection \<open>The choice between ILT and IAT\<close>

text \<open>
  C8. When the ILT RVA of a descriptor is non-zero and equal to its IAT RVA,
  \<^verbatim>\<open>use_ilt\<close> is false, the thunks that are walked are those of the IAT, and the separate
  pass over the IAT writes nothing; a descriptor that is processed writes its fields,
  the header of the IAT and the walk over the IAT, and nothing after it. In general
  \<^verbatim>\<open>use_ilt\<close> is \<^verbatim>\<open>ilt != 0 && ilt != iat\<close>.
\<close>

theorem same_table_uses_iat_only:
  assumes "GetOriginalFirstThunk dir \<noteq> 0"
    and "GetOriginalFirstThunk dir = GetFirstThunk dir"
  shows
    "use_ilt dir = False \<and>
     ilt_thunks pe dir = ImportThunkList pe (GetFirstThunk dir) \<and>
     DumpImports_iat pe dir count = [] \<and>
     use_ilt d =
       (GetOriginalFirstThunk d \<noteq> 0 \<and> GetOriginalFirstThunk d \<noteq> GetFirstThunk d) \<and>
     (\<not> IsTlsAoiTerminated dir \<and> ImportThunkList pe (GetFirstThunk dir) \<noteq> [] \<and> n \<noteq> 1000 \<longrightarrow>
        fst (DumpImports_dir pe n dir) =
          wcout Newline # DumpImports_fields pe dir @
          wcout (ImportThunksHeader False) #
          fst (DumpImports_ilt_loop (is_ilt_bound pe dir) 0 (ImportThunkList pe (GetFirstThunk dir))))"
  using assms
  by (simp add: use_ilt_def ilt_thunks_def DumpImports_iat_def DumpImports_dir_def
        DumpImports_ilt_def ilt_empty_def iat_thunks_def split: prod.splits)

theorem same_table_uses_iat_only_witness:
  "use_ilt same_table_dir = False \<and>
   fst (DumpImports_dir sample_pe 0 same_table_dir) =
     [wcout Newline,
      wcout (OriginalFirstThunkLine 0x2000), wcout (TimeDateStampLine 0),
      wcout (ForwarderChainLine 0), wcout (NameRawLine 0x1000), wcout (NameLine ''k.dll''),
      wcout (FirstThunkLine 0x2000),
      wcout (ImportThunksHeader False),
      wcout Newline, wcout (AddressOfDataLine 0x3000), wcout (HintLine 1),
      wcout (ThunkNameLine ''f'')]"
proof -
  have a: "GetOriginalFirstThunk same_table_dir \<noteq> 0" by (simp add: same_table_dir_def)
  have b: "GetOriginalFirstThunk same_table_dir = GetFirstThunk same_table_dir"
    by (simp add: same_table_dir_def)
  have c: "\<not> IsTlsAoiTerminated same_table_dir \<and>
           ImportThunkList sample_pe (GetFirstThunk same_table_dir) \<noteq> [] \<and> (0::DWORD) \<noteq> 1000"
    by (simp add: same_table_dir_def)
  from same_table_uses_iat_only [OF a b, of sample_pe 0 sample_dir 0] c show ?thesis
    by (simp add: same_table_dir_def DumpImports_fields_def ilt_valid_def
          HasValidNonEmptyBoundImportDescList_def DumpImportThunk_def named_thunk_def)
qed

subsection \<open>Names that cannot be read\<close>

text \<open>
  C10. A thunk that is dumped by name (not bound, not by ordinal) and whose hint or name
  cannot be read records exactly one warning, of type \<open>kUnsupported\<close>, and the loops go
  on with the thunks after it. A descriptor whose name cannot be read records exactly one
  warning about it, of type \<open>kSuspicious\<close>, and its thunks are dumped as for any other
  descriptor.
\<close>

theorem name_failures_absorbed:
  "(\<not> ByOrdinal thunk \<and> (GetHint thunk = None \<or> GetThunkName thunk = None) \<longrightarrow>
      count_list (DumpImportThunk thunk False)
        (WarnForCurrentFile kUnsupported InvalidThunkNameData) = 1 \<and>
      (\<forall>ty w. WarnForCurrentFile ty w \<in> set (DumpImportThunk thunk False) \<longrightarrow>
         ty = kUnsupported \<and> w = InvalidThunkNameData) \<and>
      (length (pre @ thunk # post) \<le> 1000 \<longrightarrow>
         fst (DumpImports_ilt_loop b 0 (pre @ thunk # post)) =
           dump_all False pre @ DumpImportThunk thunk False @ dump_all False post) \<and>
      DumpImports_iat_loop False False count (pre @ thunk # post) =
        dump_all False pre @ DumpImportThunk thunk False @ dump_all False post) \<and>
   (GetName dir = None \<longrightarrow>
      count_list (DumpImports_fields pe dir) (WarnForCurrentFile kSuspicious NameReadFailed) = 1 \<and>
      (\<forall>ty. WarnForCurrentFile ty NameReadFailed \<in> set (DumpImports_fields pe dir) \<longrightarrow>
         ty = kSuspicious) \<and>
      (\<not> IsTlsAoiTerminated dir \<and> iat_thunks pe dir \<noteq> [] \<and> n \<noteq> 1000 \<longrightarrow>
         count_list (fst (DumpImports_dir pe n dir))
           (WarnForCurrentFile kSuspicious NameReadFailed) = 1 \<and>
         fst (DumpImports_dir pe n dir) =
           wcout Newline # DumpImports_fields pe dir @ fst (DumpImports_ilt pe dir) @
           DumpImports_iat pe dir (snd (DumpImports_ilt pe dir))))"
proof (intro conjI impI allI)
  assume a: "\<not> ByOrdinal thunk \<and> (GetHint thunk = None \<or> GetThunkName thunk = None)"
  then show "count_list (DumpImportThunk thunk False)
        (WarnForCurrentFile kUnsupported InvalidThunkNameData) = 1"
    by (auto simp: DumpImportThunk_def split: option.splits)
  show "DumpImports_iat_loop False False count (pre @ thunk # post) =
        dump_all False pre @ DumpImportThunk thunk False @ dump_all False post"
    by (simp add: iat_loop_unchecked)
next
  fix ty w
  assume "WarnForCurrentFile ty w \<in> set (DumpImportThunk thunk False)"
  then show "ty = kUnsupported" "w = InvalidThunkNameData"
    by (auto dest: warnings_DumpImportThunk)
next
  assume "length (pre @ thunk # post) \<le> 1000"
  then show "fst (DumpImports_ilt_loop b 0 (pre @ thunk # post)) =
           dump_all False pre @ DumpImportThunk thunk False @ dump_all False post"
    by (simp add: ilt_loop_eq)
next
  assume "GetName dir = None"
  then show "count_list (DumpImports_fields pe dir)
       (WarnForCurrentFile kSuspicious NameReadFailed) = 1"
    by (simp add: count_name_warning_fields)
next
  fix ty
  assume "WarnForCurrentFile ty NameReadFailed \<in> set (DumpImports_fields pe dir)"
  then show "ty = kSuspicious"
    by (auto simp: DumpImports_fields_def Let_def split: if_splits option.splits)
next
  assume n: "GetName dir = None"
    and p: "\<not> IsTlsAoiTerminated dir \<and> iat_thunks pe dir \<noteq> [] \<and> n \<noteq> 1000"
  from p have d: "DumpImports_dir pe n dir =
     (wcout Newline # DumpImports_fields pe dir @ fst (DumpImports_ilt pe dir) @
      DumpImports_iat pe dir (snd (DumpImports_ilt pe dir)), n + 1, Continue)"
    by (simp add: DumpImports_dir_processed)
  then show "fst (DumpImports_dir pe n dir) =
           wcout Newline # DumpImports_fields pe dir @ fst (DumpImports_ilt pe dir) @
           DumpImports_iat pe dir (snd (DumpImports_ilt pe dir))"
    by simp
  from n show "count_list (fst (DumpImports_dir pe n dir))
           (WarnForCurrentFile kSuspicious NameReadFailed) = 1"
    by (simp add: d count_name_warning_fields)
qed

theorem name_failures_absorbed_witness:
  "fst (DumpImports_ilt_loop False 0 [named_thunk, unreadable_thunk, named_thunk]) =
     dump_all False [named_thunk] @
     [wcout Newline, wcout (AddressOfDataLine 0x7000),
      WarnForCurrentFile kUnsupported InvalidThunkNameData] @
     dump_all False [named_thunk] \<and>
   fst (DumpImports_dir sample_pe 0 unnamed_dir) =
     [wcout Newline,
      wcout (OriginalFirstThunkLine 0), wcout (TimeDateStampLine 0),
      wcout (ForwarderChainLine 0), wcout (NameRawLine 0x1000),
      WarnForCurrentFile kSuspicious NameReadFailed,
      wcout (FirstThunkLine 0x2000),
      wcout (ImportThunksHeader False),
      wcout Newline, wcout (AddressOfDataLine 0x3000), wcout (HintLine 1),
      wcout (ThunkNameLine ''f'')]"
proof -
  have a: "\<not> ByOrdinal unreadable_thunk \<and>
           (GetHint unreadable_thunk = None \<or> GetThunkName unreadable_thunk = None)"
    by (simp add: unreadable_thunk_def)
  have l: "length ([named_thunk] @ unreadable_thunk # [named_thunk]) \<le> 1000" by simp
  have n: "GetName unnamed_dir = None" by (simp add: unnamed_dir_def)
  have p: "\<not> IsTlsAoiTerminated unnamed_dir \<and> iat_thunks sample_pe unnamed_dir \<noteq> [] \<and>
           (0::DWORD) \<noteq> 1000"
    by (simp add: unnamed_dir_def iat_thunks_def)
  have u: "DumpImportThunk unreadable_thunk False =
           [wcout Newline, wcout (AddressOfDataLine 0x7000),
            WarnForCurrentFile kUnsupported InvalidThunkNameData]"
    by (simp add: DumpImportThunk_def unreadable_thunk_def)
  have f: "DumpImports_fields sample_pe unnamed_dir =
     [wcout (OriginalFirstThunkLine 0), wcout (TimeDateStampLine 0),
      wcout (ForwarderChainLine 0), wcout (NameRawLine 0x1000),
      WarnForCurrentFile kSuspicious NameReadFailed,
      wcout (FirstThunkLine 0x2000)]"
    by (simp add: DumpImports_fields_def unnamed_dir_def)
  have i: "DumpImports_ilt sample_pe unnamed_dir =
     ([wcout (ImportThunksHeader False),
      wcout Newline, wcout (AddressOfDataLine 0x3000), wcout (HintLine 1),
      wcout (ThunkNameLine ''f'')], 1)"
    by (simp add: DumpImports_ilt_eq ilt_empty_def ilt_thunks_def use_ilt_def unnamed_dir_def
          DumpImportThunk_def named_thunk_def)
  have j: "\<And>c. DumpImports_iat sample_pe unnamed_dir c = []"
    by (simp add: DumpImports_iat_def use_ilt_def unnamed_dir_def)
  from name_failures_absorbed
    [of unreadable_thunk "[named_thunk]" "[named_thunk]" False 0 unnamed_dir sample_pe 0]
    a l n p
  show ?thesis
    by (simp add: u f i j)
qed

subsection \<open>New style bound imports with an invalid ILT\<close>

lemma count_bound_warning_fields:
  "count_list (DumpImports_fields pe dir) (WarnForCurrentFile kUnsupported BoundInvalidIlt) =
     (if GetTimeDateStamp dir = - 1 \<and> \<not> ilt_valid pe dir \<and>
         HasValidNonEmptyBoundImportDescList pe then 1 else 0)"
  by (simp add: DumpImports_fields_def Let_def split: option.splits)

lemma ilt_thunks_unmappable:
  "use_ilt dir \<Longrightarrow> \<not> ilt_valid pe dir \<Longrightarrow> ilt_thunks pe dir = []"
  by (simp add: ilt_thunks_def ilt_valid_def ImportThunkList_unmappable)

lemma ilt_thunks_no_ilt: "\<not> use_ilt dir \<Longrightarrow> ilt_thunks pe dir = iat_thunks pe dir"
  by (simp add: ilt_thunks_def iat_thunks_def)

lemma DumpImportThunk_named:
  "DumpImportThunk named_thunk False =
     [wcout Newline, wcout (AddressOfDataLine 0x3000), wcout (HintLine 1),
      wcout (ThunkNameLine ''f'')]"
  by (simp add: DumpImportThunk_def named_thunk_def)

lemma sample_fields:
  "DumpImports_fields sample_pe (sample_dir\<lparr>GetTimeDateStamp := t\<rparr>) =
     [wcout (OriginalFirstThunkLine 0), wcout (TimeDateStampLine t),
      wcout (ForwarderChainLine 0), wcout (NameRawLine 0x1000), wcout (NameLine ''k.dll''),
      wcout (FirstThunkLine 0x2000)]"
  by (simp add: DumpImports_fields_def HasValidNonEmptyBoundImportDescList_def)

lemma sample_no_ilt_dir:
  "DumpImports_dir sample_pe 0 (sample_dir\<lparr>GetTimeDateStamp := t\<rparr>) =
     ([wcout Newline,
       wcout (OriginalFirstThunkLine 0), wcout (TimeDateStampLine t),
       wcout (ForwarderChainLine 0), wcout (NameRawLine 0x1000), wcout (NameLine ''k.dll''),
       wcout (FirstThunkLine 0x2000),
       wcout (ImportThunksHeader False),
       wcout Newline, wcout (AddressOfDataLine 0x3000), wcout (HintLine 1),
       wcout (ThunkNameLine ''f'')], 1, Continue)"
  by (simp add: DumpImports_dir_processed iat_thunks_def sample_fields DumpImports_ilt_eq
        DumpImports_iat_def ilt_empty_def ilt_thunks_def use_ilt_def DumpImportThunk_named)

text \<open>
  C1 (as amended). For a descriptor that is processed, whose time stamp is \<open>0xFFFFFFFF\<close>
  and whose ILT RVA does not resolve, the body records exactly one \<open>kUnsupported\<close>
  warning (new style bound imports with an invalid ILT) when the bound import directory
  yields an entry, and none when it yields no entry: the test is
  \<^verbatim>\<open>!ilt_valid && HasValidNonEmptyBoundImportDescList(...)\<close>. The thunks are then taken
  from the IAT and dumped as unbound: by the loop over \<^verbatim>\<open>ilt_thunks\<close> when there is no
  ILT to use, by the separate pass over the IAT (after the warning for the invalid ILT)
  when \<^verbatim>\<open>use_ilt\<close> holds and the IAT RVA is not zero.
\<close>

theorem bound_invalid_ilt_warning:
  assumes "\<not> IsTlsAoiTerminated dir"
    and "iat_thunks pe dir \<noteq> []"
    and "n \<noteq> 1000"
    and "GetTimeDateStamp dir = 0xFFFFFFFF"
    and "\<not> ilt_valid pe dir"
    and "use_ilt dir \<longrightarrow> GetFirstThunk dir \<noteq> 0"
  shows
    "count_list (fst (DumpImports_dir pe n dir))
       (WarnForCurrentFile kUnsupported BoundInvalidIlt) =
       (if HasValidNonEmptyBoundImportDescList pe then 1 else 0) \<and>
     fst (DumpImports_dir pe n dir) =
       wcout Newline # DumpImports_fields pe dir @
       (if use_ilt dir
        then [WarnForCurrentFile kSuspicious (IltEmptyOrInvalid False), wcout IatThunksHeader] @
             dump_all False (iat_thunks pe dir)
        else wcout (ImportThunksHeader False) #
             dump_all False (take 1000 (iat_thunks pe dir)) @
             (if 1000 < length (iat_thunks pe dir)
              then [WarnForCurrentFile kUnsupported ImportThunkCeiling] else []))"
proof -
  have d: "DumpImports_dir pe n dir =
     (wcout Newline # DumpImports_fields pe dir @ fst (DumpImports_ilt pe dir) @
      DumpImports_iat pe dir (snd (DumpImports_ilt pe dir)), n + 1, Continue)"
    using assms(1-3) by (rule DumpImports_dir_processed)
  have t: "GetTimeDateStamp dir = - 1" using assms(4) by simp
  have c: "count_list (fst (DumpImports_dir pe n dir))
       (WarnForCurrentFile kUnsupported BoundInvalidIlt) =
       (if HasValidNonEmptyBoundImportDescList pe then 1 else 0)"
    using assms(5) by (simp add: d count_bound_warning_fields t)
  have l: "fst (DumpImports_ilt pe dir) @ DumpImports_iat pe dir (snd (DumpImports_ilt pe dir)) =
       (if use_ilt dir
        then [WarnForCurrentFile kSuspicious (IltEmptyOrInvalid False), wcout IatThunksHeader] @
             dump_all False (iat_thunks pe dir)
        else wcout (ImportThunksHeader False) #
             dump_all False (take 1000 (iat_thunks pe dir)) @
             (if 1000 < length (iat_thunks pe dir)
              then [WarnForCurrentFile kUnsupported ImportThunkCeiling] else []))"
  proof (cases "use_ilt dir")
    case True
    with assms(5) have "ilt_thunks pe dir = []" by (simp add: ilt_thunks_unmappable)
    with True assms(2,5,6) show ?thesis
      by (simp add: DumpImports_ilt_eq DumpImports_iat_def ilt_empty_def iat_loop_unchecked)
  next
    case False
    then have "ilt_thunks pe dir = iat_thunks pe dir" by (simp add: ilt_thunks_no_ilt)
    with False assms(2) show ?thesis
      by (simp add: DumpImports_ilt_eq DumpImports_iat_def ilt_empty_def)
  qed
  from c l show ?thesis by (simp add: d)
qed

theorem bound_invalid_ilt_warning_counterexample:
  "GetTimeDateStamp new_style_bound_dir = 0xFFFFFFFF \<and>
   \<not> ilt_valid sample_pe new_style_bound_dir \<and>
   \<not> HasValidNonEmptyBoundImportDescList sample_pe \<and>
   fst (DumpImports_dir sample_pe 0 new_style_bound_dir) =
     [wcout Newline,
      wcout (OriginalFirstThunkLine 0), wcout (TimeDateStampLine 0xFFFFFFFF),
      wcout (ForwarderChainLine 0), wcout (NameRawLine 0x1000), wcout (NameLine ''k.dll''),
      wcout (FirstThunkLine 0x2000),
      wcout (ImportThunksHeader False),
      wcout Newline, wcout (AddressOfDataLine 0x3000), wcout (HintLine 1),
      wcout (ThunkNameLine ''f'')] \<and>
   count_list (fst (DumpImports_dir sample_pe 0 new_style_bound_dir))
     (WarnForCurrentFile kUnsupported BoundInvalidIlt) = 0"
  by (simp add: new_style_bound_dir_def sample_no_ilt_dir ilt_valid_def
        HasValidNonEmptyBoundImportDescList_def)

theorem bound_invalid_ilt_warning_witness:
  "count_list (fst (DumpImports_dir bound_import_pe 0 new_style_bound_dir))
     (WarnForCurrentFile kUnsupported BoundInvalidIlt) = 1 \<and>
   count_list (fst (DumpImports_dir sample_pe 0 new_style_bound_dir))
     (WarnForCurrentFile kUnsupported BoundInvalidIlt) = 0"
proof -
  have a: "\<not> IsTlsAoiTerminated new_style_bound_dir" by (simp add: new_style_bound_dir_def)
  have b: "iat_thunks bound_import_pe new_style_bound_dir \<noteq> []"
    by (simp add: iat_thunks_def ImportThunkList_def new_style_bound_dir_def bound_import_pe_def
          sample_pe_def named_thunk_def)
  have b': "iat_thunks sample_pe new_style_bound_dir \<noteq> []"
    by (simp add: iat_thunks_def new_style_bound_dir_def)
  have c: "(0::DWORD) \<noteq> 1000" by simp
  have d: "GetTimeDateStamp new_style_bound_dir = 0xFFFFFFFF" by (simp add: new_style_bound_dir_def)
  have e: "\<not> ilt_valid bound_import_pe new_style_bound_dir"
    by (simp add: ilt_valid_def new_style_bound_dir_def bound_import_pe_def)
  have e': "\<not> ilt_valid sample_pe new_style_bound_dir"
    by (simp add: ilt_valid_def new_style_bound_dir_def)
  have f: "use_ilt new_style_bound_dir \<longrightarrow> GetFirstThunk new_style_bound_dir \<noteq> 0"
    by (simp add: new_style_bound_dir_def)
  have g: "HasValidNonEmptyBoundImportDescList bound_import_pe"
    by (simp add: HasValidNonEmptyBoundImportDescList_def bound_import_pe_def)
  have g': "\<not> HasValidNonEmptyBoundImportDescList sample_pe"
    by (simp add: HasValidNonEmptyBoundImportDescList_def)
  from bound_invalid_ilt_warning [OF a b c d e f, THEN conjunct1]
       bound_invalid_ilt_warning [OF a b' c d e' f, THEN conjunct1] g g'
  show ?thesis by simp
qed

subsection \<open>How the walked thunks are rendered\<close>

lemma no_function_line: "wcout (FunctionLine a) \<notin> set (DumpImportThunk thunk False)"
  by (simp add: DumpImportThunk_def Let_def split: option.splits)

text \<open>
  C2 (as amended). For a descriptor that is processed and whose list \<^verbatim>\<open>ilt_thunks\<close> is
  not empty, \<^verbatim>\<open>is_ilt_bound\<close> has the value
  \<^verbatim>\<open>(is_bound && !use_ilt) || (image && !use_ilt)\<close>, but the loop passes \<^verbatim>\<open>false\<close> to
  \<^verbatim>\<open>DumpImportThunk\<close>: each walked thunk (the first 1000) is rendered by ordinal or by
  name and never as a bound function address, whatever \<^verbatim>\<open>is_ilt_bound\<close> is.
\<close>

theorem structural_walk_not_bound:
  assumes "\<not> IsTlsAoiTerminated dir"
    and "iat_thunks pe dir \<noteq> []"
    and "n \<noteq> 1000"
    and "ilt_thunks pe dir \<noteq> []"
  shows
    "is_ilt_bound pe dir =
       ((GetTimeDateStamp dir \<noteq> 0 \<and> \<not> use_ilt dir) \<or> (GetType pe = Image \<and> \<not> use_ilt dir)) \<and>
     fst (DumpImports_dir pe n dir) =
       wcout Newline # DumpImports_fields pe dir @
       wcout (ImportThunksHeader (use_ilt dir)) #
       dump_all False (take 1000 (ilt_thunks pe dir)) @
       (if 1000 < length (ilt_thunks pe dir)
        then [WarnForCurrentFile kUnsupported ImportThunkCeiling] else []) @
       DumpImports_iat pe dir
         (if length (ilt_thunks pe dir) \<le> 1000 then length (ilt_thunks pe dir) else 1001) \<and>
     (\<forall>thunk \<in> set (ilt_thunks pe dir).
        DumpImportThunk thunk False =
          wcout Newline #
          (if ByOrdinal thunk
           then [wcout (OrdinalRawLine (GetOrdinalRaw thunk)), wcout (OrdinalLine (GetOrdinal thunk))]
           else wcout (AddressOfDataLine (GetAddressOfData thunk)) #
                (case GetHint thunk of
                   None \<Rightarrow> [WarnForCurrentFile kUnsupported InvalidThunkNameData]
                 | Some hint \<Rightarrow>
                     wcout (HintLine hint) #
                     (case GetThunkName thunk of
                        None \<Rightarrow> [WarnForCurrentFile kUnsupported InvalidThunkNameData]
                      | Some name \<Rightarrow> [wcout (ThunkNameLine name)]))) \<and>
        wcout (FunctionLine (GetFunction thunk)) \<notin> set (DumpImportThunk thunk False))"
proof (intro conjI ballI)
  show "is_ilt_bound pe dir =
       ((GetTimeDateStamp dir \<noteq> 0 \<and> \<not> use_ilt dir) \<or> (GetType pe = Image \<and> \<not> use_ilt dir))"
    by (simp add: is_ilt_bound_def is_bound_def is_memory_bound_def)
  from assms show "fst (DumpImports_dir pe n dir) =
       wcout Newline # DumpImports_fields pe dir @
       wcout (ImportThunksHeader (use_ilt dir)) #
       dump_all False (take 1000 (ilt_thunks pe dir)) @
       (if 1000 < length (ilt_thunks pe dir)
        then [WarnForCurrentFile kUnsupported ImportThunkCeiling] else []) @
       DumpImports_iat pe dir
         (if length (ilt_thunks pe dir) \<le> 1000 then length (ilt_thunks pe dir) else 1001)"
    by (simp add: DumpImports_dir_processed DumpImports_ilt_eq ilt_empty_def)
next
  fix thunk
  show "DumpImportThunk thunk False =
          wcout Newline #
          (if ByOrdinal thunk
           then [wcout (OrdinalRawLine (GetOrdinalRaw thunk)), wcout (OrdinalLine (GetOrdinal thunk))]
           else wcout (AddressOfDataLine (GetAddressOfData thunk)) #
                (case GetHint thunk of
                   None \<Rightarrow> [WarnForCurrentFile kUnsupported InvalidThunkNameData]
                 | Some hint \<Rightarrow>
                     wcout (HintLine hint) #
                     (case GetThunkName thunk of
                        None \<Rightarrow> [WarnForCurrentFile kUnsupported InvalidThunkNameData]
                      | Some name \<Rightarrow> [wcout (ThunkNameLine name)])))"
    by (simp add: DumpImportThunk_def)
  show "wcout (FunctionLine (GetFunction thunk)) \<notin> set (DumpImportThunk thunk False)"
    by (rule no_function_line)
qed

theorem structural_walk_not_bound_counterexample:
  "GetTimeDateStamp old_style_bound_dir \<noteq> 0 \<and>
   use_ilt old_style_bound_dir = False \<and>
   is_ilt_bound sample_pe old_style_bound_dir = True \<and>
   ilt_thunks sample_pe old_style_bound_dir = [named_thunk] \<and>
   fst (DumpImports_dir sample_pe 0 old_style_bound_dir) =
     [wcout Newline,
      wcout (OriginalFirstThunkLine 0), wcout (TimeDateStampLine 0x50000000),
      wcout (ForwarderChainLine 0), wcout (NameRawLine 0x1000), wcout (NameLine ''k.dll''),
      wcout (FirstThunkLine 0x2000),
      wcout (ImportThunksHeader False),
      wcout Newline, wcout (AddressOfDataLine 0x3000), wcout (HintLine 1),
      wcout (ThunkNameLine ''f'')] \<and>
   wcout (FunctionLine (GetFunction named_thunk)) \<notin>
     set (fst (DumpImports_dir sample_pe 0 old_style_bound_dir))"
  by (simp add: old_style_bound_dir_def sample_no_ilt_dir use_ilt_def is_ilt_bound_def
        is_bound_def ilt_thunks_def)

theorem structural_walk_not_bound_witness:
  "fst (DumpImports_dir sample_pe 0 old_style_bound_dir) =
     [wcout Newline,
      wcout (OriginalFirstThunkLine 0), wcout (TimeDateStampLine 0x50000000),
      wcout (ForwarderChainLine 0), wcout (NameRawLine 0x1000), wcout (NameLine ''k.dll''),
      wcout (FirstThunkLine 0x2000),
      wcout (ImportThunksHeader False),
      wcout Newline, wcout (AddressOfDataLine 0x3000), wcout (HintLine 1),
      wcout (ThunkNameLine ''f'')] \<and>
   is_ilt_bound sample_pe old_style_bound_dir = True"
proof -
  have a: "\<not> IsTlsAoiTerminated old_style_bound_dir" by (simp add: old_style_bound_dir_def)
  have b: "iat_thunks sample_pe old_style_bound_dir \<noteq> []"
    by (simp add: iat_thunks_def old_style_bound_dir_def)
  have c: "(0::DWORD) \<noteq> 1000" by simp
  have u: "use_ilt old_style_bound_dir = False" by (simp add: use_ilt_def old_style_bound_dir_def)
  have t: "ilt_thunks sample_pe old_style_bound_dir = [named_thunk]"
    by (simp add: ilt_thunks_def u) (simp add: old_style_bound_dir_def)
  have d: "ilt_thunks sample_pe old_style_bound_dir \<noteq> []" by (simp add: t)
  have f: "DumpImports_fields sample_pe old_style_bound_dir =
     [wcout (OriginalFirstThunkLine 0), wcout (TimeDateStampLine 0x50000000),
      wcout (ForwarderChainLine 0), wcout (NameRawLine 0x1000), wcout (NameLine ''k.dll''),
      wcout (FirstThunkLine 0x2000)]"
    by (simp add: old_style_bound_dir_def sample_fields)
  have i: "\<And>k. DumpImports_iat sample_pe old_style_bound_dir k = []"
    by (simp add: DumpImports_iat_def u)
  have g: "GetTimeDateStamp old_style_bound_dir \<noteq> 0" by (simp add: old_style_bound_dir_def)
  from structural_walk_not_bound [OF a b c d] show ?thesis
    by (simp add: t u f i g DumpImportThunk_named)
qed

subsection \<open>The separate pass over the IAT\<close>

lemma count_mismatch_fields_ilt [simp]:
  "count_list (DumpImports_fields pe dir) (WarnForCurrentFile ty IatIltSizeMismatch) = 0"
  "count_list (fst (DumpImports_ilt pe dir)) (WarnForCurrentFile ty IatIltSizeMismatch) = 0"
  by simp_all

lemma unmapped_ilt_dir_facts:
  "use_ilt unmapped_ilt_dir"
  "\<not> IsTlsAoiTerminated unmapped_ilt_dir"
  "GetFirstThunk unmapped_ilt_dir = 0x2000"
  "GetOriginalFirstThunk unmapped_ilt_dir = 0x9000"
  by (simp_all add: use_ilt_def unmapped_ilt_dir_def)

text \<open>
  C3 (as amended). For a descriptor that is processed, with \<^verbatim>\<open>use_ilt\<close> true, a non-zero
  IAT RVA, an ILT RVA that resolves and an ILT of at most 1000 thunks, whose IAT has
  strictly more thunks than the ILT: the pass over the IAT dumps exactly as many thunks
  as the ILT has, then records exactly one \<open>kSuspicious\<close> warning for the size mismatch
  and stops. When the ILT RVA does not resolve, the test \<^verbatim>\<open>ilt_valid && !count--\<close> is
  never true: the counterexample below.
\<close>

theorem iat_walk_stops_at_ilt_size:
  assumes "\<not> IsTlsAoiTerminated dir"
    and "n \<noteq> 1000"
    and "use_ilt dir"
    and "GetFirstThunk dir \<noteq> 0"
    and "ilt_valid pe dir"
    and "length (ilt_thunks pe dir) \<le> 1000"
    and "length (ilt_thunks pe dir) < length (iat_thunks pe dir)"
  shows
    "thunks_dumped (fst (DumpImports_ilt pe dir)) = length (ilt_thunks pe dir) \<and>
     DumpImports_iat pe dir (snd (DumpImports_ilt pe dir)) =
       wcout IatThunksHeader #
       dump_all (is_iat_bound pe dir \<or> \<not> ilt_empty pe dir)
         (take (length (ilt_thunks pe dir)) (iat_thunks pe dir)) @
       [WarnForCurrentFile kSuspicious IatIltSizeMismatch] \<and>
     thunks_dumped (DumpImports_iat pe dir (snd (DumpImports_ilt pe dir))) =
       length (ilt_thunks pe dir) \<and>
     fst (DumpImports_dir pe n dir) =
       wcout Newline # DumpImports_fields pe dir @ fst (DumpImports_ilt pe dir) @
       DumpImports_iat pe dir (snd (DumpImports_ilt pe dir)) \<and>
     count_list (fst (DumpImports_dir pe n dir))
       (WarnForCurrentFile kSuspicious IatIltSizeMismatch) = 1"
proof -
  from assms(7) have ne: "iat_thunks pe dir \<noteq> []" by auto
  have d: "DumpImports_dir pe n dir =
     (wcout Newline # DumpImports_fields pe dir @ fst (DumpImports_ilt pe dir) @
      DumpImports_iat pe dir (snd (DumpImports_ilt pe dir)), n + 1, Continue)"
    using assms(1) ne assms(2) by (rule DumpImports_dir_processed)
  have s: "snd (DumpImports_ilt pe dir) = length (ilt_thunks pe dir)"
    using assms(6) by (simp add: DumpImports_ilt_eq)
  have i: "DumpImports_iat pe dir (snd (DumpImports_ilt pe dir)) =
       wcout IatThunksHeader #
       dump_all (is_iat_bound pe dir \<or> \<not> ilt_empty pe dir)
         (take (length (ilt_thunks pe dir)) (iat_thunks pe dir)) @
       [WarnForCurrentFile kSuspicious IatIltSizeMismatch]"
    using assms(3,4,5,7) ne by (simp add: s DumpImports_iat_def iat_loop_checked)
  have t: "thunks_dumped (fst (DumpImports_ilt pe dir)) = length (ilt_thunks pe dir)"
    using assms(6) by (simp add: DumpImports_ilt_eq)
  have t': "thunks_dumped (DumpImports_iat pe dir (snd (DumpImports_ilt pe dir))) =
       length (ilt_thunks pe dir)"
    using assms(7) by (simp add: i)
  have c: "count_list (DumpImports_iat pe dir (snd (DumpImports_ilt pe dir)))
       (WarnForCurrentFile kSuspicious IatIltSizeMismatch) = 1"
    by (simp add: i)
  have c': "count_list (fst (DumpImports_dir pe n dir))
       (WarnForCurrentFile kSuspicious IatIltSizeMismatch) = 1"
    by (simp add: d c)
  from t i t' d c' show ?thesis by simp
qed

theorem iat_walk_stops_at_ilt_size_counterexample:
  "use_ilt unmapped_ilt_dir \<and> GetFirstThunk unmapped_ilt_dir \<noteq> 0 \<and>
   \<not> ilt_valid sample_pe unmapped_ilt_dir \<and>
   thunks_dumped (fst (DumpImports_ilt sample_pe unmapped_ilt_dir)) = 0 \<and>
   length (iat_thunks sample_pe unmapped_ilt_dir) = 1 \<and>
   thunks_dumped
     (DumpImports_iat sample_pe unmapped_ilt_dir (snd (DumpImports_ilt sample_pe unmapped_ilt_dir)))
     = 1 \<and>
   count_list (fst (DumpImports_dir sample_pe 0 unmapped_ilt_dir))
     (WarnForCurrentFile kSuspicious IatIltSizeMismatch) = 0"
proof -
  have v: "\<not> ilt_valid sample_pe unmapped_ilt_dir"
    by (simp add: ilt_valid_def unmapped_ilt_dir_facts)
  have e: "ilt_thunks sample_pe unmapped_ilt_dir = []"
    by (simp add: ilt_thunks_def unmapped_ilt_dir_facts)
  have a: "iat_thunks sample_pe unmapped_ilt_dir = [named_thunk]"
    by (simp add: iat_thunks_def unmapped_ilt_dir_facts)
  have i: "\<And>k. DumpImports_iat sample_pe unmapped_ilt_dir k =
             wcout IatThunksHeader # DumpImportThunk named_thunk False"
    using v by (simp add: DumpImports_iat_def unmapped_ilt_dir_facts a ilt_empty_def e
          iat_loop_unchecked)
  have d: "fst (DumpImports_dir sample_pe 0 unmapped_ilt_dir) =
     wcout Newline # DumpImports_fields sample_pe unmapped_ilt_dir @
     fst (DumpImports_ilt sample_pe unmapped_ilt_dir) @
     DumpImports_iat sample_pe unmapped_ilt_dir (snd (DumpImports_ilt sample_pe unmapped_ilt_dir))"
    by (simp add: DumpImports_dir_processed unmapped_ilt_dir_facts a)
  show ?thesis
    by (simp add: d i v e a unmapped_ilt_dir_facts DumpImports_ilt_eq ilt_empty_def)
qed

theorem iat_walk_stops_at_ilt_size_witness:
  "thunks_dumped (fst (DumpImports_ilt sample_pe two_table_dir)) = 1 \<and>
   length (iat_thunks sample_pe two_table_dir) = 2 \<and>
   DumpImports_iat sample_pe two_table_dir (snd (DumpImports_ilt sample_pe two_table_dir)) =
     [wcout IatThunksHeader, wcout Newline, wcout (FunctionLine 0x3000),
      WarnForCurrentFile kSuspicious IatIltSizeMismatch] \<and>
   count_list (fst (DumpImports_dir sample_pe 0 two_table_dir))
     (WarnForCurrentFile kSuspicious IatIltSizeMismatch) = 1"
proof -
  have a: "\<not> IsTlsAoiTerminated two_table_dir" by (simp add: two_table_dir_def)
  have b: "(0::DWORD) \<noteq> 1000" by simp
  have c: "use_ilt two_table_dir" by (simp add: use_ilt_def two_table_dir_def)
  have d: "GetFirstThunk two_table_dir \<noteq> 0" by (simp add: two_table_dir_def)
  have e: "ilt_valid sample_pe two_table_dir" by (simp add: ilt_valid_def two_table_dir_def)
  have t: "ilt_thunks sample_pe two_table_dir = [named_thunk]"
    by (simp add: ilt_thunks_def c) (simp add: two_table_dir_def)
  have i: "iat_thunks sample_pe two_table_dir = [named_thunk, unreadable_thunk]"
    by (simp add: iat_thunks_def two_table_dir_def)
  have f: "length (ilt_thunks sample_pe two_table_dir) \<le> 1000" by (simp add: t)
  have g: "length (ilt_thunks sample_pe two_table_dir) < length (iat_thunks sample_pe two_table_dir)"
    by (simp add: t i)
  have h: "DumpImportThunk named_thunk True = [wcout Newline, wcout (FunctionLine 0x3000)]"
    by (simp add: DumpImportThunk_def named_thunk_def)
  from iat_walk_stops_at_ilt_size [OF a b c d e f g] show ?thesis
    by (simp add: t i h ilt_empty_def)
qed

text \<open>
  C7. What the code does where the claim asks for a bound: for a descriptor that is
  processed, with \<^verbatim>\<open>use_ilt\<close> true, a non-zero IAT RVA and an ILT RVA that does not
  resolve, the pass over the IAT dumps every thunk of the IAT, however many, and no
  ceiling or size warning is recorded. The image \<open>huge_iat_pe\<close> has 2000 thunks dumped.
\<close>

theorem iat_walk_has_no_ceiling:
  assumes "\<not> IsTlsAoiTerminated dir"
    and "n \<noteq> 1000"
    and "use_ilt dir"
    and "GetFirstThunk dir \<noteq> 0"
    and "\<not> ilt_valid pe dir"
  shows
    "thunks_dumped (fst (DumpImports_dir pe n dir)) = length (iat_thunks pe dir) \<and>
     count_list (fst (DumpImports_dir pe n dir))
       (WarnForCurrentFile kUnsupported ImportThunkCeiling) = 0 \<and>
     count_list (fst (DumpImports_dir pe n dir))
       (WarnForCurrentFile kSuspicious IatIltSizeMismatch) = 0"
proof (cases "iat_thunks pe dir = []")
  case True
  with assms(1) show ?thesis by (simp add: DumpImports_dir_def)
next
  case False
  have d: "DumpImports_dir pe n dir =
     (wcout Newline # DumpImports_fields pe dir @ fst (DumpImports_ilt pe dir) @
      DumpImports_iat pe dir (snd (DumpImports_ilt pe dir)), n + 1, Continue)"
    using assms(1) False assms(2) by (rule DumpImports_dir_processed)
  have e: "ilt_thunks pe dir = []"
    using assms(3,5) by (simp add: ilt_thunks_def ilt_valid_def ImportThunkList_unmappable)
  have i: "\<And>k. DumpImports_iat pe dir k = wcout IatThunksHeader # dump_all False (iat_thunks pe dir)"
    using assms(3,4,5) False
    by (simp add: DumpImports_iat_def iat_loop_unchecked ilt_empty_def e)
  have f: "thunks_dumped (DumpImports_fields pe dir) = 0"
    by (simp add: DumpImports_fields_def Let_def split: option.splits)
  show ?thesis
    by (simp add: d i f DumpImports_ilt_eq e ilt_empty_def)
qed

theorem iat_walk_has_no_ceiling_witness:
  "ImportDirList huge_iat_pe = [unmapped_ilt_dir] \<and>
   length (iat_thunks huge_iat_pe unmapped_ilt_dir) = 2000 \<and>
   thunks_dumped (DumpImports huge_iat_pe) = 2000 \<and>
   count_list (DumpImports huge_iat_pe) (WarnForCurrentFile kUnsupported ImportThunkCeiling) = 0"
proof -
  have b: "(0::DWORD) \<noteq> 1000" by simp
  have r: "RvaToVa huge_iat_pe = RvaToVa sample_pe" by (simp add: huge_iat_pe_def)
  have v: "\<not> ilt_valid huge_iat_pe unmapped_ilt_dir"
    by (simp add: ilt_valid_def unmapped_ilt_dir_facts r)
  have z: "GetFirstThunk unmapped_ilt_dir \<noteq> 0" by (simp add: unmapped_ilt_dir_facts)
  have "takeWhile (\<lambda>thunk. GetAddressOfData thunk \<noteq> 0) (replicate 2000 named_thunk @ []) =
        replicate 2000 named_thunk @ takeWhile (\<lambda>thunk. GetAddressOfData thunk \<noteq> 0) []"
    by (rule takeWhile_append2) (simp add: named_thunk_nonzero)
  then have l: "iat_thunks huge_iat_pe unmapped_ilt_dir = replicate 2000 named_thunk"
    by (simp add: iat_thunks_def ImportThunkList_def r unmapped_ilt_dir_facts)
       (simp add: huge_iat_pe_def)
  have m: "ImportDirList huge_iat_pe = [unmapped_ilt_dir]" by (simp add: huge_iat_pe_def)
  have u: "DumpImports huge_iat_pe =
           wcout ImportDirsHeader # fst (DumpImports_dir huge_iat_pe 0 unmapped_ilt_dir)"
    by (simp add: DumpImports_def m split: prod.splits ctl.splits)
  from iat_walk_has_no_ceiling [OF unmapped_ilt_dir_facts(2) b unmapped_ilt_dir_facts(1) z v]
  show ?thesis
    by (simp add: u l m)
qed

subsection \<open>The counter of the descriptors\<close>

lemma DumpImports_dir_skipped:
  "\<not> IsTlsAoiTerminated dir \<Longrightarrow> iat_thunks pe dir = [] \<Longrightarrow>
   DumpImports_dir pe n dir =
     ([wcout Newline, WarnForCurrentFile kSuspicious (IatEmptyOrInvalid (iat_valid pe dir))],
      n, Continue)"
  by (simp add: DumpImports_dir_def)

lemma loop_skipped:
  "\<forall>dir \<in> set skipped. \<not> IsTlsAoiTerminated dir \<and> iat_thunks pe dir = [] \<Longrightarrow>
   DumpImports_loop pe n (skipped @ dirs) =
     (skip_log pe skipped @ fst (DumpImports_loop pe n dirs), snd (DumpImports_loop pe n dirs))"
  by (induction skipped) (simp_all add: skip_log_def DumpImports_dir_skipped split: prod.splits)

lemma ceiling_not_in_skip_log:
  "WarnForCurrentFile ty ImportDirCeiling \<notin> set (skip_log pe dirs)"
  by (auto simp: skip_log_def)

text \<open>
  C9. \<^verbatim>\<open>num_import_dirs\<close> counts only the descriptors that are not skipped. A run of
  descriptors that are all skipped (none the TLS AOI terminator, each with an IAT that
  yields no thunk), of any length and at any value of the counter, writes one warning for
  each of them, leaves the counter as it was and lets the loop go on with the rest of the
  table; no resource warning for the descriptors is recorded for the run. A descriptor
  that is not skipped (and not the terminator) advances the counter by one.
\<close>

theorem skipped_dirs_not_counted:
  assumes "\<forall>dir \<in> set skipped. \<not> IsTlsAoiTerminated dir \<and> iat_thunks pe dir = []"
  shows
    "DumpImports_loop pe n (skipped @ dirs) =
       (skip_log pe skipped @ fst (DumpImports_loop pe n dirs),
        snd (DumpImports_loop pe n dirs)) \<and>
     DumpImports_loop pe n skipped = (skip_log pe skipped, n, Continue) \<and>
     WarnForCurrentFile kUnsupported ImportDirCeiling \<notin> set (fst (DumpImports_loop pe n skipped)) \<and>
     (\<not> IsTlsAoiTerminated d \<and> iat_thunks pe d \<noteq> [] \<longrightarrow>
        fst (snd (DumpImports_dir pe n d)) = n + 1)"
proof (intro conjI impI)
  show "DumpImports_loop pe n (skipped @ dirs) =
       (skip_log pe skipped @ fst (DumpImports_loop pe n dirs),
        snd (DumpImports_loop pe n dirs))"
    using assms by (rule loop_skipped)
  from loop_skipped [OF assms, of n "[]"]
  show l: "DumpImports_loop pe n skipped = (skip_log pe skipped, n, Continue)"
    by simp
  show "WarnForCurrentFile kUnsupported ImportDirCeiling \<notin> set (fst (DumpImports_loop pe n skipped))"
    by (simp add: l ceiling_not_in_skip_log)
next
  assume "\<not> IsTlsAoiTerminated d \<and> iat_thunks pe d \<noteq> []"
  then show "fst (snd (DumpImports_dir pe n d)) = n + 1"
    by (simp add: DumpImports_dir_def split: prod.splits)
qed

theorem skipped_dirs_not_counted_witness:
  "length (ImportDirList many_skipped_pe) = 5000 \<and>
   DumpImports many_skipped_pe =
     wcout ImportDirsHeader # skip_log many_skipped_pe (replicate 5000 empty_iat_dir) \<and>
   WarnForCurrentFile kUnsupported ImportDirCeiling \<notin> set (DumpImports many_skipped_pe)"
proof -
  have i: "iat_thunks many_skipped_pe empty_iat_dir = []"
    by (simp add: iat_thunks_def ImportThunkList_def many_skipped_pe_def empty_iat_dir_def)
  have a: "\<forall>dir \<in> set (replicate 5000 empty_iat_dir).
            \<not> IsTlsAoiTerminated dir \<and> iat_thunks many_skipped_pe dir = []"
    by (simp add: i) (simp add: empty_iat_dir_def)
  have l: "ImportDirList many_skipped_pe = replicate 5000 empty_iat_dir"
    by (simp add: many_skipped_pe_def)
  have n: "replicate 5000 empty_iat_dir \<noteq> []" by simp
  note w = skipped_dirs_not_counted [OF a, of 0 "[]" sample_dir]
  from w have l1: "DumpImports_loop many_skipped_pe 0 (replicate 5000 empty_iat_dir) =
      (skip_log many_skipped_pe (replicate 5000 empty_iat_dir), 0, Continue)"
    by blast
  from w have l2: "WarnForCurrentFile kUnsupported ImportDirCeiling \<notin>
      set (fst (DumpImports_loop many_skipped_pe 0 (replicate 5000 empty_iat_dir)))"
    by blast
  from l2 show ?thesis
    by (simp add: DumpImports_def l n l1)
qed

subsection \<open>The TLS AOI terminator\<close>

lemma DumpImports_dir_Continue:
  assumes "DumpImports_dir pe n dir = (events, n', Continue)"
  shows "\<not> IsTlsAoiTerminated dir \<and>
         WarnForCurrentFile ty TlsAoiTrick \<notin> set events \<and>
         WarnForCurrentFile ty ImportDirCeiling \<notin> set events"
proof (cases "IsTlsAoiTerminated dir \<or> iat_thunks pe dir = [] \<or> n = 1000")
  case True
  with assms show ?thesis by (auto simp: DumpImports_dir_def split: if_splits)
next
  case False
  then have "DumpImports_dir pe n dir =
     (wcout Newline # DumpImports_fields pe dir @ fst (DumpImports_ilt pe dir) @
      DumpImports_iat pe dir (snd (DumpImports_ilt pe dir)), n + 1, Continue)"
    by (simp add: DumpImports_dir_processed)
  with assms have e: "events = wcout Newline # DumpImports_fields pe dir @
      fst (DumpImports_ilt pe dir) @ DumpImports_iat pe dir (snd (DumpImports_ilt pe dir))"
    by simp
  from False show ?thesis
    by (auto simp: e dest: warnings_fields warnings_ilt warnings_iat)
qed

lemma DumpImports_dir_Break:
  assumes "DumpImports_dir pe n dir = (events, n', Break)"
  shows "(IsTlsAoiTerminated dir \<and>
          events = [wcout Newline, WarnForCurrentFile kSuspicious TlsAoiTrick]) \<or>
         (\<not> IsTlsAoiTerminated dir \<and>
          events = [wcout Newline, WarnForCurrentFile kUnsupported ImportDirCeiling])"
  using assms by (auto simp: DumpImports_dir_def split: if_splits prod.splits)

lemma loop_tls:
  "WarnForCurrentFile kSuspicious TlsAoiTrick \<in> set (fst (DumpImports_loop pe n dirs)) \<Longrightarrow>
   \<exists>pre dir post. dirs = pre @ dir # post \<and> IsTlsAoiTerminated dir \<and>
     (\<forall>d \<in> set pre. \<not> IsTlsAoiTerminated d) \<and>
     fst (DumpImports_loop pe n dirs) =
       fst (DumpImports_loop pe n pre) @ [wcout Newline, WarnForCurrentFile kSuspicious TlsAoiTrick] \<and>
     WarnForCurrentFile kSuspicious TlsAoiTrick \<notin> set (fst (DumpImports_loop pe n pre)) \<and>
     WarnForCurrentFile kUnsupported ImportDirCeiling \<notin> set (fst (DumpImports_loop pe n pre))"
proof (induction dirs arbitrary: n)
  case Nil
  then show ?case by simp
next
  case (Cons d ds)
  obtain events n' c where r: "DumpImports_dir pe n d = (events, n', c)"
    by (cases "DumpImports_dir pe n d") auto
  show ?case
  proof (cases c)
    case Break
    with r Cons.prems have "WarnForCurrentFile kSuspicious TlsAoiTrick \<in> set events" by simp
    with DumpImports_dir_Break [OF r [unfolded Break]]
    have "IsTlsAoiTerminated d"
      and "events = [wcout Newline, WarnForCurrentFile kSuspicious TlsAoiTrick]" by auto
    with r Break have
      "d # ds = [] @ d # ds \<and> IsTlsAoiTerminated d \<and>
       (\<forall>d \<in> set []. \<not> IsTlsAoiTerminated d) \<and>
       fst (DumpImports_loop pe n (d # ds)) =
         fst (DumpImports_loop pe n []) @ [wcout Newline, WarnForCurrentFile kSuspicious TlsAoiTrick] \<and>
       WarnForCurrentFile kSuspicious TlsAoiTrick \<notin> set (fst (DumpImports_loop pe n [])) \<and>
       WarnForCurrentFile kUnsupported ImportDirCeiling \<notin> set (fst (DumpImports_loop pe n []))"
      by simp
    then show ?thesis by blast
  next
    case Continue
    note k = DumpImports_dir_Continue [OF r [unfolded Continue]]
    from r Continue have s: "\<And>xs. fst (DumpImports_loop pe n (d # xs)) =
        events @ fst (DumpImports_loop pe n' xs)"
      by (simp split: prod.splits)
    from Cons.prems [unfolded s] k
    have "WarnForCurrentFile kSuspicious TlsAoiTrick \<in> set (fst (DumpImports_loop pe n' ds))"
      by simp
    from Cons.IH [OF this] obtain pre dir post where
      p: "ds = pre @ dir # post" "IsTlsAoiTerminated dir" "\<forall>d \<in> set pre. \<not> IsTlsAoiTerminated d"
        "fst (DumpImports_loop pe n' ds) =
          fst (DumpImports_loop pe n' pre) @ [wcout Newline, WarnForCurrentFile kSuspicious TlsAoiTrick]"
        "WarnForCurrentFile kSuspicious TlsAoiTrick \<notin> set (fst (DumpImports_loop pe n' pre))"
        "WarnForCurrentFile kUnsupported ImportDirCeiling \<notin> set (fst (DumpImports_loop pe n' pre))"
      by blast
    from p k s have
      "d # ds = (d # pre) @ dir # post \<and> IsTlsAoiTerminated dir \<and>
       (\<forall>d \<in> set (d # pre). \<not> IsTlsAoiTerminated d) \<and>
       fst (DumpImports_loop pe n (d # ds)) =
         fst (DumpImports_loop pe n (d # pre)) @ [wcout Newline, WarnForCurrentFile kSuspicious TlsAoiTrick] \<and>
       WarnForCurrentFile kSuspicious TlsAoiTrick \<notin> set (fst (DumpImports_loop pe n (d # pre))) \<and>
       WarnForCurrentFile kUnsupported ImportDirCeiling \<notin> set (fst (DumpImports_loop pe n (d # pre)))"
      by (simp del: DumpImports_loop.simps)
    then show ?thesis by blast
  qed
qed

lemma DumpImports_dir_ImportDirList [simp]:
  "DumpImports_dir (pe\<lparr>ImportDirList := l\<rparr>) n dir = DumpImports_dir pe n dir"
  by (simp add: DumpImports_dir_def DumpImports_ilt_def DumpImports_iat_def
        DumpImports_fields_def iat_thunks_def ilt_thunks_def ilt_empty_def ilt_valid_def
        iat_valid_def is_ilt_bound_def is_iat_bound_def is_memory_bound_def ImportThunkList_def
        HasValidNonEmptyBoundImportDescList_def)

lemma sample_dir_log:
  "DumpImports_dir sample_pe 0 sample_dir =
     ([wcout Newline,
       wcout (OriginalFirstThunkLine 0), wcout (TimeDateStampLine 0),
       wcout (ForwarderChainLine 0), wcout (NameRawLine 0x1000), wcout (NameLine ''k.dll''),
       wcout (FirstThunkLine 0x2000),
       wcout (ImportThunksHeader False),
       wcout Newline, wcout (AddressOfDataLine 0x3000), wcout (HintLine 1),
       wcout (ThunkNameLine ''f'')], 1, Continue)"
  using sample_no_ilt_dir [of 0] by (simp add: sample_dir_def)

text \<open>A terminator always records its warning; the loop up to a descriptor it reaches.\<close>

lemma DumpImports_dir_terminator:
  "IsTlsAoiTerminated dir \<Longrightarrow>
   DumpImports_dir pe n dir =
     ([wcout Newline, WarnForCurrentFile kSuspicious TlsAoiTrick], n, Break)"
  by (simp add: DumpImports_dir_def)

lemma loop_append_Continue:
  "DumpImports_loop pe n pre = (events, n', Continue) \<Longrightarrow>
   DumpImports_loop pe n (pre @ rest) =
     (events @ fst (DumpImports_loop pe n' rest), snd (DumpImports_loop pe n' rest))"
proof (induction pre arbitrary: n events)
  case Nil
  then show ?case by simp
next
  case (Cons d ds)
  obtain ev m c where r: "DumpImports_dir pe n d = (ev, m, c)"
    by (cases "DumpImports_dir pe n d") auto
  show ?case
  proof (cases c)
    case Break
    with r Cons.prems show ?thesis by simp
  next
    case Continue
    obtain ev2 m2 c2 where l: "DumpImports_loop pe m ds = (ev2, m2, c2)"
      by (cases "DumpImports_loop pe m ds") auto
    from Cons.prems r Continue l have e: "events = ev @ ev2" "m2 = n'" "c2 = Continue"
      by simp_all
    from Cons.IH [of m ev2] l e
    have "DumpImports_loop pe m (ds @ rest) =
            (ev2 @ fst (DumpImports_loop pe n' rest), snd (DumpImports_loop pe n' rest))"
      by simp
    with r Continue e show ?thesis by simp
  qed
qed

lemma counter_step:
  fixes n :: DWORD
  assumes "unat n < 1000"
  shows "n \<noteq> 1000" and "unat (n + 1) = unat n + 1"
proof -
  from assms show "n \<noteq> 1000" by auto
  from assms have "unat n + unat (1::DWORD) < 2 ^ 32" by simp
  then show "unat (n + 1) = unat n + 1"
    by (simp add: unat_word_ariths)
qed

lemma loop_below_ceiling:
  "\<forall>d \<in> set dirs. \<not> IsTlsAoiTerminated d \<Longrightarrow>
   unat n + length (filter (\<lambda>d. iat_thunks pe d \<noteq> []) dirs) \<le> 1000 \<Longrightarrow>
   snd (snd (DumpImports_loop pe n dirs)) = Continue \<and>
   WarnForCurrentFile kSuspicious TlsAoiTrick \<notin> set (fst (DumpImports_loop pe n dirs)) \<and>
   WarnForCurrentFile kUnsupported ImportDirCeiling \<notin> set (fst (DumpImports_loop pe n dirs))"
proof (induction dirs arbitrary: n)
  case Nil
  then show ?case by simp
next
  case (Cons d ds)
  from Cons.prems(1) have nt: "\<not> IsTlsAoiTerminated d"
    and rest: "\<forall>d \<in> set ds. \<not> IsTlsAoiTerminated d" by simp_all
  show ?case
  proof (cases "iat_thunks pe d = []")
    case True
    with Cons.prems(2) have "unat n + length (filter (\<lambda>d. iat_thunks pe d \<noteq> []) ds) \<le> 1000"
      by simp
    from Cons.IH [OF rest this] nt True show ?thesis
      by (cases "DumpImports_loop pe n ds") (simp add: DumpImports_dir_skipped)
  next
    case False
    with Cons.prems(2) have lt: "unat n < 1000"
      and le: "unat n + 1 + length (filter (\<lambda>d. iat_thunks pe d \<noteq> []) ds) \<le> 1000"
      by simp_all
    note c = counter_step [OF lt]
    have r: "DumpImports_dir pe n d =
       (wcout Newline # DumpImports_fields pe d @ fst (DumpImports_ilt pe d) @
        DumpImports_iat pe d (snd (DumpImports_ilt pe d)), n + 1, Continue)"
      using nt False c(1) by (rule DumpImports_dir_processed)
    note k = DumpImports_dir_Continue [OF r]
    from le c(2) have "unat (n + 1) + length (filter (\<lambda>d. iat_thunks pe d \<noteq> []) ds) \<le> 1000"
      by simp
    from Cons.IH [OF rest this] k show ?thesis
      by (cases "DumpImports_loop pe (n + 1) ds") (simp add: r)
  qed
qed

text \<open>
  C6. A descriptor that is TLS AOI terminated records the warning of line 122 and breaks
  the loop, at every value of the counter. In a table whose first such descriptor comes
  after at most 1000 descriptors that are not skipped (so that the loop reaches it), the
  log is the log of the descriptors before it followed by that warning: the warning is
  recorded exactly once, nothing after the descriptor is enumerated, and no resource
  warning for the descriptors is recorded. Conversely, whenever the warning is in the log,
  it is there exactly once, with no resource warning for the descriptors, and the log ends
  at the first TLS AOI terminated descriptor.
\<close>

theorem tls_terminator_stops_enumeration:
  "(IsTlsAoiTerminated dir \<longrightarrow>
      DumpImports_dir pe n dir =
        ([wcout Newline, WarnForCurrentFile kSuspicious TlsAoiTrick], n, Break)) \<and>
   (ImportDirList pe = pre @ dir # post \<and> IsTlsAoiTerminated dir \<and>
    (\<forall>d \<in> set pre. \<not> IsTlsAoiTerminated d) \<and>
    length (filter (\<lambda>d. iat_thunks pe d \<noteq> []) pre) \<le> 1000 \<longrightarrow>
      DumpImports pe =
        wcout ImportDirsHeader # fst (DumpImports_loop pe 0 pre) @
        [wcout Newline, WarnForCurrentFile kSuspicious TlsAoiTrick] \<and>
      count_list (DumpImports pe) (WarnForCurrentFile kSuspicious TlsAoiTrick) = 1 \<and>
      WarnForCurrentFile kUnsupported ImportDirCeiling \<notin> set (DumpImports pe)) \<and>
   (WarnForCurrentFile kSuspicious TlsAoiTrick \<in> set (DumpImports pe) \<longrightarrow>
      count_list (DumpImports pe) (WarnForCurrentFile kSuspicious TlsAoiTrick) = 1 \<and>
      WarnForCurrentFile kUnsupported ImportDirCeiling \<notin> set (DumpImports pe) \<and>
      (\<exists>pre dir post.
         ImportDirList pe = pre @ dir # post \<and> IsTlsAoiTerminated dir \<and>
         (\<forall>d \<in> set pre. \<not> IsTlsAoiTerminated d) \<and>
         DumpImports pe =
           wcout ImportDirsHeader # fst (DumpImports_loop pe 0 pre) @
           [wcout Newline, WarnForCurrentFile kSuspicious TlsAoiTrick]))"
proof (intro conjI)
  show "IsTlsAoiTerminated dir \<longrightarrow>
      DumpImports_dir pe n dir =
        ([wcout Newline, WarnForCurrentFile kSuspicious TlsAoiTrick], n, Break)"
    by (simp add: DumpImports_dir_terminator)
next
  show "ImportDirList pe = pre @ dir # post \<and> IsTlsAoiTerminated dir \<and>
    (\<forall>d \<in> set pre. \<not> IsTlsAoiTerminated d) \<and>
    length (filter (\<lambda>d. iat_thunks pe d \<noteq> []) pre) \<le> 1000 \<longrightarrow>
      DumpImports pe =
        wcout ImportDirsHeader # fst (DumpImports_loop pe 0 pre) @
        [wcout Newline, WarnForCurrentFile kSuspicious TlsAoiTrick] \<and>
      count_list (DumpImports pe) (WarnForCurrentFile kSuspicious TlsAoiTrick) = 1 \<and>
      WarnForCurrentFile kUnsupported ImportDirCeiling \<notin> set (DumpImports pe)"
  proof
    assume a: "ImportDirList pe = pre @ dir # post \<and> IsTlsAoiTerminated dir \<and>
      (\<forall>d \<in> set pre. \<not> IsTlsAoiTerminated d) \<and>
      length (filter (\<lambda>d. iat_thunks pe d \<noteq> []) pre) \<le> 1000"
    then have "unat (0::DWORD) + length (filter (\<lambda>d. iat_thunks pe d \<noteq> []) pre) \<le> 1000"
      by simp
    with a have b: "snd (snd (DumpImports_loop pe 0 pre)) = Continue"
      "WarnForCurrentFile kSuspicious TlsAoiTrick \<notin> set (fst (DumpImports_loop pe 0 pre))"
      "WarnForCurrentFile kUnsupported ImportDirCeiling \<notin> set (fst (DumpImports_loop pe 0 pre))"
      using loop_below_ceiling [of pre 0 pe] by blast+
    obtain ev m where l: "DumpImports_loop pe 0 pre = (ev, m, Continue)"
      using b(1) by (cases "DumpImports_loop pe 0 pre") auto
    from a have t: "DumpImports_loop pe m (dir # post) =
        ([wcout Newline, WarnForCurrentFile kSuspicious TlsAoiTrick], m, Break)"
      by (simp add: DumpImports_dir_terminator)
    from loop_append_Continue [OF l, of "dir # post"] t
    have f: "fst (DumpImports_loop pe 0 (pre @ dir # post)) =
        ev @ [wcout Newline, WarnForCurrentFile kSuspicious TlsAoiTrick]"
      by simp
    from a have ne: "ImportDirList pe \<noteq> []" by simp
    have d: "DumpImports pe =
        wcout ImportDirsHeader # fst (DumpImports_loop pe 0 pre) @
        [wcout Newline, WarnForCurrentFile kSuspicious TlsAoiTrick]"
      using a f l ne by (simp add: DumpImports_def)
    from b(2,3) show "DumpImports pe =
        wcout ImportDirsHeader # fst (DumpImports_loop pe 0 pre) @
        [wcout Newline, WarnForCurrentFile kSuspicious TlsAoiTrick] \<and>
      count_list (DumpImports pe) (WarnForCurrentFile kSuspicious TlsAoiTrick) = 1 \<and>
      WarnForCurrentFile kUnsupported ImportDirCeiling \<notin> set (DumpImports pe)"
      by (simp add: d)
  qed
next
  show "WarnForCurrentFile kSuspicious TlsAoiTrick \<in> set (DumpImports pe) \<longrightarrow>
      count_list (DumpImports pe) (WarnForCurrentFile kSuspicious TlsAoiTrick) = 1 \<and>
      WarnForCurrentFile kUnsupported ImportDirCeiling \<notin> set (DumpImports pe) \<and>
      (\<exists>pre dir post.
         ImportDirList pe = pre @ dir # post \<and> IsTlsAoiTerminated dir \<and>
         (\<forall>d \<in> set pre. \<not> IsTlsAoiTerminated d) \<and>
         DumpImports pe =
           wcout ImportDirsHeader # fst (DumpImports_loop pe 0 pre) @
           [wcout Newline, WarnForCurrentFile kSuspicious TlsAoiTrick])"
  proof
    assume h: "WarnForCurrentFile kSuspicious TlsAoiTrick \<in> set (DumpImports pe)"
    then have "WarnForCurrentFile kSuspicious TlsAoiTrick \<in>
        set (fst (DumpImports_loop pe 0 (ImportDirList pe)))"
      by (auto simp: DumpImports_def split: if_splits)
    from loop_tls [OF this] obtain pre dir post where
        p: "ImportDirList pe = pre @ dir # post" "IsTlsAoiTerminated dir"
          "\<forall>d \<in> set pre. \<not> IsTlsAoiTerminated d"
          "fst (DumpImports_loop pe 0 (ImportDirList pe)) =
            fst (DumpImports_loop pe 0 pre) @ [wcout Newline, WarnForCurrentFile kSuspicious TlsAoiTrick]"
          "WarnForCurrentFile kSuspicious TlsAoiTrick \<notin> set (fst (DumpImports_loop pe 0 pre))"
          "WarnForCurrentFile kUnsupported ImportDirCeiling \<notin> set (fst (DumpImports_loop pe 0 pre))"
      by blast
    from p(1) have ne: "ImportDirList pe \<noteq> []" by simp
    have d: "DumpImports pe =
            wcout ImportDirsHeader # fst (DumpImports_loop pe 0 pre) @
            [wcout Newline, WarnForCurrentFile kSuspicious TlsAoiTrick]"
      by (simp add: DumpImports_def ne p(4))
    have c: "count_list (DumpImports pe) (WarnForCurrentFile kSuspicious TlsAoiTrick) = 1"
      using p(5) by (simp add: d)
    have e: "WarnForCurrentFile kUnsupported ImportDirCeiling \<notin> set (DumpImports pe)"
      using p(6) by (simp add: d)
    from c e p(1-3) d
    show "count_list (DumpImports pe) (WarnForCurrentFile kSuspicious TlsAoiTrick) = 1 \<and>
      WarnForCurrentFile kUnsupported ImportDirCeiling \<notin> set (DumpImports pe) \<and>
      (\<exists>pre dir post.
         ImportDirList pe = pre @ dir # post \<and> IsTlsAoiTerminated dir \<and>
         (\<forall>d \<in> set pre. \<not> IsTlsAoiTerminated d) \<and>
         DumpImports pe =
           wcout ImportDirsHeader # fst (DumpImports_loop pe 0 pre) @
           [wcout Newline, WarnForCurrentFile kSuspicious TlsAoiTrick])"
      by blast
  qed
qed

theorem tls_terminator_stops_enumeration_witness:
  "DumpImports_dir tls_pe 7 tls_dir =
     ([wcout Newline, WarnForCurrentFile kSuspicious TlsAoiTrick], 7, Break) \<and>
   ImportDirList tls_pe = [sample_dir] @ tls_dir # [sample_dir] \<and>
   DumpImports tls_pe =
     [wcout ImportDirsHeader,
      wcout Newline,
      wcout (OriginalFirstThunkLine 0), wcout (TimeDateStampLine 0),
      wcout (ForwarderChainLine 0), wcout (NameRawLine 0x1000), wcout (NameLine ''k.dll''),
      wcout (FirstThunkLine 0x2000),
      wcout (ImportThunksHeader False),
      wcout Newline, wcout (AddressOfDataLine 0x3000), wcout (HintLine 1),
      wcout (ThunkNameLine ''f''),
      wcout Newline, WarnForCurrentFile kSuspicious TlsAoiTrick] \<and>
   count_list (DumpImports tls_pe) (WarnForCurrentFile kSuspicious TlsAoiTrick) = 1 \<and>
   WarnForCurrentFile kUnsupported ImportDirCeiling \<notin> set (DumpImports tls_pe)"
proof -
  have t: "IsTlsAoiTerminated tls_dir" by (simp add: tls_dir_def)
  have l: "ImportDirList tls_pe = [sample_dir] @ tls_dir # [sample_dir]"
    by (simp add: tls_pe_def)
  have p: "\<forall>d \<in> set [sample_dir]. \<not> IsTlsAoiTerminated d" by simp
  have k: "length (filter (\<lambda>d. iat_thunks tls_pe d \<noteq> []) [sample_dir]) \<le> 1000" by simp
  have s: "fst (DumpImports_loop tls_pe 0 [sample_dir]) =
     [wcout Newline,
      wcout (OriginalFirstThunkLine 0), wcout (TimeDateStampLine 0),
      wcout (ForwarderChainLine 0), wcout (NameRawLine 0x1000), wcout (NameLine ''k.dll''),
      wcout (FirstThunkLine 0x2000),
      wcout (ImportThunksHeader False),
      wcout Newline, wcout (AddressOfDataLine 0x3000), wcout (HintLine 1),
      wcout (ThunkNameLine ''f'')]"
    by (simp add: tls_pe_def sample_dir_log)
  note w = tls_terminator_stops_enumeration [of tls_dir tls_pe 7 "[sample_dir]" "[sample_dir]"]
  from w t have a: "DumpImports_dir tls_pe 7 tls_dir =
     ([wcout Newline, WarnForCurrentFile kSuspicious TlsAoiTrick], 7, Break)"
    by blast
  from w t l p k have b: "DumpImports tls_pe =
        wcout ImportDirsHeader # fst (DumpImports_loop tls_pe 0 [sample_dir]) @
        [wcout Newline, WarnForCurrentFile kSuspicious TlsAoiTrick] \<and>
      count_list (DumpImports tls_pe) (WarnForCurrentFile kSuspicious TlsAoiTrick) = 1 \<and>
      WarnForCurrentFile kUnsupported ImportDirCeiling \<notin> set (DumpImports tls_pe)"
    by blast
  from a l b show ?thesis
    by (simp add: s del: DumpImports_loop.simps)
qed

end
